theory Spec2Isabelle
  imports Main
begin

section \<open>JavaScript values\<close>

text \<open>
  The controller (the second module of \<^verbatim>\<open>src/cassis/index.js\<close>) is untyped: the fields of a
  parsed request body, and what the catalog store returns, are arbitrary JavaScript
  values. The model keeps the values that decide the control flow.

  A number is \<^verbatim>\<open>NaN\<close>, an infinity, or an integer \<open>n\<close>, which stands for the double
  whose value is \<open>n\<close>. The operations below return the number the double arithmetic of
  JavaScript returns: where the exact result is not a double, the nearest one. Numbers
  with a fraction are outside the model; they arise in the controller only inside
  \<^verbatim>\<open>Math.ceil(count / PAGE_LIMIT)\<close>, which is modelled as one operation.
\<close>

datatype jsnum = NaN | Num int | Infinity | Neg_Infinity

text \<open>The primitive values other than strings, and values including strings.
  A string is a list of UTF-16 code units below 256 (one \<^typ>\<open>char\<close> each).\<close>

datatype jsprim = Undefined | Null | Boolean bool | Number jsnum

datatype jsval = Prim jsprim | Str string

text \<open>\<^verbatim>\<open>ToNumber\<close> on the primitives.\<close>

fun toNumber :: "jsprim \<Rightarrow> jsnum" where
  "toNumber Undefined = NaN"
| "toNumber Null = Num 0"
| "toNumber (Boolean b) = Num (if b then 1 else 0)"
| "toNumber (Number n) = n"

text \<open>\<^verbatim>\<open>ToBoolean\<close>: what \<^verbatim>\<open>if (x)\<close>, \<^verbatim>\<open>!x\<close>, \<^verbatim>\<open>x && y\<close> and \<^verbatim>\<open>x || y\<close> test.\<close>

fun truthy_prim :: "jsprim \<Rightarrow> bool" where
  "truthy_prim Undefined = False"
| "truthy_prim Null = False"
| "truthy_prim (Boolean b) = b"
| "truthy_prim (Number NaN) = False"
| "truthy_prim (Number (Num n)) = (n \<noteq> 0)"
| "truthy_prim (Number Infinity) = True"
| "truthy_prim (Number Neg_Infinity) = True"

fun truthy :: "jsval \<Rightarrow> bool" where
  "truthy (Prim p) = truthy_prim p"
| "truthy (Str s) = (s \<noteq> [])"

text \<open>The relational operators on numbers: every comparison with \<^verbatim>\<open>NaN\<close> is false.\<close>

fun js_lt :: "jsnum \<Rightarrow> jsnum \<Rightarrow> bool" where
  "js_lt (Num a) (Num b) = (a < b)"
| "js_lt (Num a) Infinity = True"
| "js_lt Neg_Infinity (Num b) = True"
| "js_lt Neg_Infinity Infinity = True"
| "js_lt _ _ = False"

fun js_le :: "jsnum \<Rightarrow> jsnum \<Rightarrow> bool" where
  "js_le (Num a) (Num b) = (a \<le> b)"
| "js_le (Num a) Infinity = True"
| "js_le Neg_Infinity (Num b) = True"
| "js_le Neg_Infinity Infinity = True"
| "js_le Infinity Infinity = True"
| "js_le Neg_Infinity Neg_Infinity = True"
| "js_le _ _ = False"

subsection \<open>Rounding to a double\<close>

text \<open>The number of binary digits of a positive integer.\<close>

function bit_length :: "int \<Rightarrow> nat" where
  "bit_length n = (if n \<le> 0 then 0 else Suc (bit_length (n div 2)))"
  by pat_completeness auto
termination
  by (relation "measure nat") auto

declare bit_length.simps [simp del]

text \<open>A double has 53 significant binary digits. \<open>round_53 m\<close> is the integer with at
  most 53 significant binary digits nearest to \<open>m \<ge> 0\<close>; of two that are equally near,
  the one whose 53 digits make an even number.\<close>

definition round_53 :: "int \<Rightarrow> int" where
  "round_53 m =
    (let k = bit_length m - 53; q = m div 2 ^ k; r = m mod 2 ^ k
     in if 2 * r < 2 ^ k \<or> (2 * r = 2 ^ k \<and> even q) then q * 2 ^ k else (q + 1) * 2 ^ k)"

text \<open>The number that an exact integer result becomes: every integer up to \<open>2 ^ 53\<close> in
  absolute value is a double; a larger one is rounded, and what rounds to \<open>2 ^ 1024\<close> or
  more is an infinity.\<close>

definition double_of_int :: "int \<Rightarrow> jsnum" where
  "double_of_int i =
    (if \<bar>i\<bar> \<le> 2 ^ 53 then Num i
     else let m = round_53 \<bar>i\<bar>
          in if 2 ^ 1024 \<le> m then (if 0 < i then Infinity else Neg_Infinity)
             else Num (if 0 < i then m else - m))"

subsection \<open>Arithmetic\<close>

text \<open>\<^verbatim>\<open>a + b\<close>, \<^verbatim>\<open>a - b\<close> and \<^verbatim>\<open>a * b\<close> on numbers: \<^verbatim>\<open>NaN\<close> propagates, and so do the
  infinities, except that two opposite infinities add up to \<^verbatim>\<open>NaN\<close> and that 0 times an
  infinity is \<^verbatim>\<open>NaN\<close>.\<close>

fun js_add :: "jsnum \<Rightarrow> jsnum \<Rightarrow> jsnum" where
  "js_add (Num a) (Num b) = double_of_int (a + b)"
| "js_add NaN _ = NaN"
| "js_add _ NaN = NaN"
| "js_add Infinity Neg_Infinity = NaN"
| "js_add Neg_Infinity Infinity = NaN"
| "js_add Infinity _ = Infinity"
| "js_add _ Infinity = Infinity"
| "js_add Neg_Infinity _ = Neg_Infinity"
| "js_add _ Neg_Infinity = Neg_Infinity"

fun js_neg :: "jsnum \<Rightarrow> jsnum" where
  "js_neg NaN = NaN"
| "js_neg (Num a) = Num (- a)"
| "js_neg Infinity = Neg_Infinity"
| "js_neg Neg_Infinity = Infinity"

definition js_sub :: "jsnum \<Rightarrow> jsnum \<Rightarrow> jsnum" where
  "js_sub a b = js_add a (js_neg b)"

fun js_mul :: "jsnum \<Rightarrow> jsnum \<Rightarrow> jsnum" where
  "js_mul (Num a) (Num b) = double_of_int (a * b)"
| "js_mul NaN _ = NaN"
| "js_mul _ NaN = NaN"
| "js_mul Infinity (Num b) = (if b = 0 then NaN else if 0 < b then Infinity else Neg_Infinity)"
| "js_mul Neg_Infinity (Num b) = (if b = 0 then NaN else if 0 < b then Neg_Infinity else Infinity)"
| "js_mul (Num a) Infinity = (if a = 0 then NaN else if 0 < a then Infinity else Neg_Infinity)"
| "js_mul (Num a) Neg_Infinity = (if a = 0 then NaN else if 0 < a then Neg_Infinity else Infinity)"
| "js_mul Infinity Infinity = Infinity"
| "js_mul Neg_Infinity Neg_Infinity = Infinity"
| "js_mul Infinity Neg_Infinity = Neg_Infinity"
| "js_mul Neg_Infinity Infinity = Neg_Infinity"

text \<open>
  \<^verbatim>\<open>Math.ceil(a / b)\<close> for integers \<open>a\<close> and \<open>b\<close>. The division rounds the quotient to a
  double, and \<^verbatim>\<open>Math.ceil\<close> takes the least integer not below that double. For
  \<open>\<bar>a\<bar> \<le> 2 ^ 53\<close> the rounding never reaches an integer that the quotient itself is not,
  and the result is the least integer not below the quotient. For a larger \<open>a\<close> the
  quotient is rounded first: \<open>M\<close> is its 53 significant digits, rounded to even, and
  \<open>t\<close> the power of 2 that scales them. Division by 0 gives an infinity, and 0 / 0
  gives \<^verbatim>\<open>NaN\<close>. (\<^verbatim>\<open>PAGE_LIMIT\<close>, the only divisor in the controller, is never 0:
  \<^verbatim>\<open>parseInt(process.env.PAGE_LIMIT) || 30\<close>.)
\<close>

definition ceil_quotient :: "int \<Rightarrow> int \<Rightarrow> jsnum" where
  "ceil_quotient a b =
    (if b = 0 then (if 0 < a then Infinity else if a < 0 then Neg_Infinity else NaN)
     else if \<bar>a\<bar> \<le> 2 ^ 53 then Num (- ((- a) div b))
     else
       let A = \<bar>a\<bar>; B = \<bar>b\<bar>;
           e = int (bit_length A) - int (bit_length B);
           t = (if 2 ^ 52 * B * 2 ^ nat (e - 52) \<le> A * 2 ^ nat (52 - e)
                then e - 52 else e - 53);
           N = A * 2 ^ nat (- t); D = B * 2 ^ nat t;
           M0 = N div D; rem = N mod D;
           M = (if 2 * rem < D \<or> (2 * rem = D \<and> even M0) then M0 else M0 + 1);
           positive = ((0 < a) = (0 < b));
           R = (if positive then (M * 2 ^ nat t + 2 ^ nat (- t) - 1) div 2 ^ nat (- t)
                else M * 2 ^ nat t div 2 ^ nat (- t))
       in if 2 ^ 1024 \<le> R then (if positive then Infinity else Neg_Infinity)
          else Num (if positive then R else - R))"

fun js_ceil_div :: "jsnum \<Rightarrow> int \<Rightarrow> jsnum" where
  "js_ceil_div (Num a) b = ceil_quotient a b"
| "js_ceil_div NaN b = NaN"
| "js_ceil_div Infinity b = (if b < 0 then Neg_Infinity else Infinity)"
| "js_ceil_div Neg_Infinity b = (if b < 0 then Infinity else Neg_Infinity)"

section \<open>Pagination: \<^verbatim>\<open>getPageNavigation\<close>\<close>

text \<open>A navigation link \<^verbatim>\<open>{ value: ..., class: ... }\<close>.\<close>

record link =
  value' :: jsval
  class' :: string

text \<open>The object \<^verbatim>\<open>pageNav\<close>. On the single-page path only \<^verbatim>\<open>size\<close> is set; the
  other properties are absent (\<open>None\<close>).\<close>

record pageNav =
  size' :: jsprim
  currentpage :: "jsnum option"
  firstpage :: "link option"
  prevpage :: "link option"
  nextpage :: "link option"
  lastpage :: "link option"

definition enabled :: "jsval \<Rightarrow> link" where
  "enabled v = \<lparr>value' = v, class' = ''''\<rparr>"

definition disabled :: link where
  "disabled = \<lparr>value' = Str '''', class' = ''disabled''\<rparr>"

text \<open>\<^verbatim>\<open>getPageNavigation(page, count)\<close>, with the module constant \<^verbatim>\<open>PAGE_LIMIT\<close> as
  first argument. \<open>count\<close> is what the store's count query returned.\<close>

definition getPageNavigation :: "int \<Rightarrow> jsnum \<Rightarrow> jsprim \<Rightarrow> pageNav" where
  "getPageNavigation PAGE_LIMIT page0 count =
    (if js_le (toNumber count) (Num PAGE_LIMIT) then
       \<lparr>size' = count, currentpage = None, firstpage = None, prevpage = None,
        nextpage = None, lastpage = None\<rparr>
     else
       let lastpage = js_sub (js_ceil_div (toNumber count) PAGE_LIMIT) (Num 1);
           page = (if js_lt page0 (Num 0) then Num 0
                   else if js_lt lastpage page0 then lastpage else page0)
       in \<lparr>size' = count,
           currentpage = Some page,
           firstpage = Some (if js_lt (Num 0) page then enabled (Str ''0'') else disabled),
           prevpage = Some (if js_lt (Num 0) page
                            then enabled (Prim (Number (js_sub page (Num 1)))) else disabled),
           nextpage = Some (if js_lt page lastpage
                            then enabled (Prim (Number (js_add page (Num 1)))) else disabled),
           lastpage = Some (if js_le page lastpage
                            then enabled (Prim (Number lastpage)) else disabled)\<rparr>)"

section \<open>Strings\<close>

text \<open>The string methods the controller uses, on strings of code units below 256.\<close>

text \<open>\<^verbatim>\<open>String.prototype.trim\<close> strips white space and line terminators from both ends.
  Below 256 these are TAB, LF, VT, FF, CR, SPACE and NO-BREAK SPACE.\<close>

definition is_js_space :: "char \<Rightarrow> bool" where
  "is_js_space c = ((of_char c :: nat) \<in> {9, 10, 11, 12, 13, 32, 160})"

definition trim_start :: "string \<Rightarrow> string" where
  "trim_start s = dropWhile is_js_space s"

definition trim :: "string \<Rightarrow> string" where
  "trim s = rev (dropWhile is_js_space (rev (dropWhile is_js_space s)))"

text \<open>\<^verbatim>\<open>String.prototype.toLowerCase\<close>: below 256 the letters with a lower-case form are
  A to Z and the letters from 192 to 222 other than the multiplication sign 215; each
  maps to the code unit 32 above.\<close>

definition lower_char :: "char \<Rightarrow> char" where
  "lower_char c =
    (let n = (of_char c :: nat)
     in if (65 \<le> n \<and> n \<le> 90) \<or> (192 \<le> n \<and> n \<le> 222 \<and> n \<noteq> 215)
        then char_of (n + 32) else c)"

definition toLowerCase :: "string \<Rightarrow> string" where
  "toLowerCase s = map lower_char s"

text \<open>\<^verbatim>\<open>s.replaceAll(c, t)\<close> for a pattern of one character.\<close>

definition replaceAll_char :: "char \<Rightarrow> string \<Rightarrow> string \<Rightarrow> string" where
  "replaceAll_char c t s = concat (map (\<lambda>x. if x = c then t else [x]) s)"

text \<open>\<^verbatim>\<open>s.replaceAll(/[cls]+/g, t)\<close>: every maximal run of characters of the class is
  replaced by one copy of \<open>t\<close>.\<close>

function replaceAll_runs :: "(char \<Rightarrow> bool) \<Rightarrow> string \<Rightarrow> string \<Rightarrow> string" where
  "replaceAll_runs cls t [] = []"
| "replaceAll_runs cls t (c # cs) =
    (if cls c then t @ replaceAll_runs cls t (dropWhile cls cs)
     else c # replaceAll_runs cls t cs)"
  by pat_completeness auto
termination
  by (relation "measure (\<lambda>(cls, t, s). length s)")
     (auto simp: le_imp_less_Suc length_dropWhile_le)

text \<open>\<^verbatim>\<open>s.split(c)\<close> for a separator of one character; the empty string gives one
  empty piece.\<close>

fun split_char :: "char \<Rightarrow> string \<Rightarrow> string list" where
  "split_char sep [] = [[]]"
| "split_char sep (c # cs) =
    (if c = sep then [] # split_char sep cs
     else (case split_char sep cs of
             [] \<Rightarrow> [[c]]
           | t # ts \<Rightarrow> (c # t) # ts))"

text \<open>\<^verbatim>\<open>a.join(sep)\<close> on an array of strings.\<close>

fun join :: "string \<Rightarrow> string list \<Rightarrow> string" where
  "join sep [] = []"
| "join sep [t] = t"
| "join sep (t # ts) = t @ sep @ join sep ts"

section \<open>The search-string tokenizer: \<^verbatim>\<open>searchStringToArray\<close>\<close>

text \<open>\<^verbatim>\<open>whitespace_chars = /[\/\,\.\|\ \*\?\!\:\;\(\)\[\]\&\"\+]+/g\<close>: the character class.\<close>

definition whitespace_chars :: "char \<Rightarrow> bool" where
  "whitespace_chars c = (c \<in> set ''/,.| *?!:;()[]&\"+'')"

text \<open>\<^verbatim>\<open>whitespace_char01 = String.fromCharCode(172)\<close>.\<close>

definition whitespace_char01 :: char where
  "whitespace_char01 = CHR 0xAC"

definition searchStringToArray :: "string \<Rightarrow> string list" where
  "searchStringToArray s =
     split_char (CHR '' '')
       (replaceAll_char (CHR 0x27) [CHR 0x27, CHR 0x27]
         (replaceAll_runs whitespace_chars '' ''
           (replaceAll_char whitespace_char01 '' ''
             (toLowerCase (trim s)))))"

text \<open>The tokenizer as the specification words it: lower-case, turn the alternate word
  separator into a space, collapse the separator class to single spaces, double the
  single quotes, split on spaces.\<close>

definition spec_tokenize :: "string \<Rightarrow> string list" where
  "spec_tokenize s =
     split_char (CHR '' '')
       (replaceAll_char (CHR 0x27) [CHR 0x27, CHR 0x27]
         (replaceAll_runs whitespace_chars '' ''
           (replaceAll_char whitespace_char01 '' ''
             (toLowerCase s))))"

section \<open>Request fields\<close>

text \<open>
  The handlers read the parsed request body \<^verbatim>\<open>options\<close>, an object. It is modelled as
  the function from a property name to its value; a missing property reads as
  \<^verbatim>\<open>undefined\<close>. The values of the properties are primitives or strings.
\<close>

type_synonym options = "string \<Rightarrow> jsval"

definition no_options :: options where
  "no_options = (\<lambda>name. Prim Undefined)"

text \<open>The exceptions the handlers raise themselves: calling a method that a value does
  not have, and reading a property of \<^verbatim>\<open>undefined\<close>.\<close>

datatype exn = TypeError_not_a_function string | TypeError_property_of_undefined string

subsection \<open>\<^verbatim>\<open>isNaN\<close> and \<^verbatim>\<open>parseInt\<close>\<close>

definition is_digit :: "char \<Rightarrow> bool" where
  "is_digit c = (48 \<le> (of_char c :: nat) \<and> (of_char c :: nat) \<le> 57)"

definition is_hex_digit :: "char \<Rightarrow> bool" where
  "is_hex_digit c = (is_digit c \<or> c \<in> set ''abcdefABCDEF'')"

text \<open>The optional exponent part of a decimal literal: nothing, or \<^verbatim>\<open>e\<close> or \<^verbatim>\<open>E\<close>, an
  optional sign, and at least one digit.\<close>

definition exponent_part :: "string \<Rightarrow> bool" where
  "exponent_part r =
    (case r of
       [] \<Rightarrow> True
     | c # cs \<Rightarrow>
         (c = CHR ''e'' \<or> c = CHR ''E'') \<and>
         (let ds = (case cs of
                      [] \<Rightarrow> []
                    | sg # rest \<Rightarrow> if sg = CHR ''+'' \<or> sg = CHR ''-'' then rest else cs)
          in ds \<noteq> [] \<and> list_all is_digit ds))"

text \<open>\<^verbatim>\<open>StrUnsignedDecimalLiteral\<close>: \<^verbatim>\<open>Infinity\<close>, or digits with an optional fraction
  (one of the two digit sequences around the point may be empty) and exponent.\<close>

definition unsigned_decimal :: "string \<Rightarrow> bool" where
  "unsigned_decimal t =
    (t = ''Infinity'' \<or>
     (let ip = takeWhile is_digit t; r = dropWhile is_digit t
      in case r of
           [] \<Rightarrow> ip \<noteq> []
         | c # r' \<Rightarrow>
             if c = CHR ''.''
             then (ip \<noteq> [] \<or> takeWhile is_digit r' \<noteq> []) \<and>
                  exponent_part (dropWhile is_digit r')
             else ip \<noteq> [] \<and> exponent_part r))"

text \<open>\<^verbatim>\<open>NonDecimalIntegerLiteral\<close>: \<^verbatim>\<open>0b\<close>, \<^verbatim>\<open>0o\<close> or \<^verbatim>\<open>0x\<close> (in either case) and at
  least one digit of that base; no sign.\<close>

definition non_decimal :: "string \<Rightarrow> bool" where
  "non_decimal t =
    (case t of
       z # b # ds \<Rightarrow>
         z = CHR ''0'' \<and> ds \<noteq> [] \<and>
         (if b = CHR ''b'' \<or> b = CHR ''B'' then list_all (\<lambda>c. c \<in> set ''01'') ds
          else if b = CHR ''o'' \<or> b = CHR ''O'' then list_all (\<lambda>c. c \<in> set ''01234567'') ds
          else if b = CHR ''x'' \<or> b = CHR ''X'' then list_all is_hex_digit ds
          else False)
     | _ \<Rightarrow> False)"

text \<open>\<^verbatim>\<open>isNaN(s)\<close> for a string: \<^verbatim>\<open>ToNumber\<close> trims \<open>s\<close>; the empty string is 0; any other
  string is a number exactly when it is a numeric literal.\<close>

definition numeric_string :: "string \<Rightarrow> bool" where
  "numeric_string s =
    (let t = trim s
     in t = [] \<or> non_decimal t \<or>
        (case t of
           [] \<Rightarrow> False
         | c # cs \<Rightarrow> if c = CHR ''+'' \<or> c = CHR ''-'' then unsigned_decimal cs
                     else unsigned_decimal t))"

fun isNaN :: "jsval \<Rightarrow> bool" where
  "isNaN (Prim p) = (toNumber p = NaN)"
| "isNaN (Str s) = (\<not> numeric_string s)"

definition digit_value :: "char \<Rightarrow> int" where
  "digit_value c = int (of_char c) - 48"

text \<open>\<^verbatim>\<open>parseInt(s, 10)\<close> for a string: skip leading white space, read an optional sign,
  then the longest run of decimal digits; without a digit the result is \<^verbatim>\<open>NaN\<close>. The
  value of the digits becomes a number: a value that is not a double is rounded to one.\<close>

definition parseInt_string :: "string \<Rightarrow> jsnum" where
  "parseInt_string s =
    (let t = trim_start s;
         neg = (case t of [] \<Rightarrow> False | c # cs \<Rightarrow> c = CHR ''-'');
         u = (case t of [] \<Rightarrow> []
              | c # cs \<Rightarrow> if c = CHR ''+'' \<or> c = CHR ''-'' then cs else t);
         ds = takeWhile is_digit u
     in if ds = [] then NaN
        else double_of_int
               ((if neg then - 1 else 1) * foldl (\<lambda>a c. 10 * a + digit_value c) 0 ds))"

text \<open>The number of decimal digits of a positive integer.\<close>

function decimal_length :: "int \<Rightarrow> nat" where
  "decimal_length n = (if n < 10 then 1 else Suc (decimal_length (n div 10)))"
  by pat_completeness auto
termination
  by (relation "measure nat") auto

declare decimal_length.simps [simp del]

text \<open>
  A double \<open>m\<close> from \<open>10 ^ 21\<close> on prints in exponent notation, as in \<^verbatim>\<open>1e+21\<close> or
  \<^verbatim>\<open>1.2345e+22\<close>, with the fewest digits that still round to \<open>m\<close>. \<open>exponent_digit m\<close>
  is the first of these digits: when a single digit \<open>d\<close> times a power of 10 rounds to
  \<open>m\<close>, the number prints with that digit alone; otherwise every decimal that rounds to
  \<open>m\<close> starts with the first digit of \<open>m\<close> itself.
\<close>

definition exponent_digit :: "int \<Rightarrow> int" where
  "exponent_digit m =
    (let e = decimal_length m - 1
     in if round_53 (10 ^ Suc e) = m then 1
        else case filter (\<lambda>d. round_53 (d * 10 ^ e) = m) [1..9] of
               d # ds \<Rightarrow> d
             | [] \<Rightarrow> m div 10 ^ e)"

text \<open>\<^verbatim>\<open>parseInt(v, 10)\<close> converts \<open>v\<close> to a string first. An integer below \<open>10 ^ 21\<close> in
  absolute value prints as decimal digits that read back as the same number. From
  \<open>10 ^ 21\<close> on it prints in exponent notation, of which \<^verbatim>\<open>parseInt\<close> reads the sign
  and the first digit: \<^verbatim>\<open>parseInt(1e21, 10)\<close> is 1. \<^verbatim>\<open>undefined\<close>, \<^verbatim>\<open>null\<close>, \<^verbatim>\<open>true\<close>,
  \<^verbatim>\<open>false\<close>, \<^verbatim>\<open>NaN\<close> and the infinities print as words without a digit.\<close>

fun parseInt :: "jsval \<Rightarrow> jsnum" where
  "parseInt (Prim (Number (Num n))) =
     (if \<bar>n\<bar> < 10 ^ 21 then Num n else Num (sgn n * exponent_digit \<bar>n\<bar>))"
| "parseInt (Prim p) = NaN"
| "parseInt (Str s) = parseInt_string s"

text \<open>The expression \<^verbatim>\<open>(!x || isNaN(x)) ? 0 : parseInt(x, 10)\<close>, which the handlers apply to
  \<^verbatim>\<open>page\<close>, \<^verbatim>\<open>serieId\<close>, \<^verbatim>\<open>authorsId\<close>, \<^verbatim>\<open>tagId\<close>, \<^verbatim>\<open>ccNum\<close> and \<^verbatim>\<open>ccId\<close>.\<close>

definition int_option :: "jsval \<Rightarrow> jsnum" where
  "int_option x = (if \<not> truthy x \<or> isNaN x then Num 0 else parseInt x)"

text \<open>\<^verbatim>\<open>(!options.sortString) ? "" : options.sortString\<close>.\<close>

definition sort_option :: "jsval \<Rightarrow> jsval" where
  "sort_option x = (if \<not> truthy x then Str [] else x)"

text \<open>\<^verbatim>\<open>(options.searchString) ? searchStringToArray(options.searchString) : null\<close>.
  A truthy value that is not a string has no method \<^verbatim>\<open>trim\<close>.\<close>

fun search_option :: "jsval \<Rightarrow> exn + string list option" where
  "search_option (Str s) = (if s \<noteq> [] then Inr (Some (searchStringToArray s)) else Inr None)"
| "search_option (Prim p) =
    (if truthy_prim p then Inl (TypeError_not_a_function ''trim'') else Inr None)"

section \<open>The catalog store\<close>

text \<open>
  The store (\<^verbatim>\<open>model.js\<close>) is not part of the sources: its functions are parameters.
  A count query returns a primitive value, a find query an array of books of some type
  \<open>'b\<close>. The arguments are the search tokens (\<^verbatim>\<open>null\<close> is \<open>None\<close>), the sort string, the
  ids, the limit and the offset, in the order of the source.
\<close>

record fileData =
  path :: string
  bookId :: nat

record 'b store =
  countBooks :: "string list option \<Rightarrow> jsprim"
  findBooks :: "string list option \<Rightarrow> jsval \<Rightarrow> int \<Rightarrow> jsnum \<Rightarrow> 'b list"
  countBooksWithTags :: "string list option \<Rightarrow> jsnum \<Rightarrow> jsprim"
  findBooksWithTags :: "string list option \<Rightarrow> jsval \<Rightarrow> jsnum \<Rightarrow> int \<Rightarrow> jsnum \<Rightarrow> 'b list"
  countBooksWithCC :: "jsnum \<Rightarrow> string list option \<Rightarrow> jsnum \<Rightarrow> jsprim"
  findBooksWithCC ::
    "jsnum \<Rightarrow> string list option \<Rightarrow> jsval \<Rightarrow> jsnum \<Rightarrow> int \<Rightarrow> jsnum \<Rightarrow> 'b list"
  countBooksBySerie :: "jsnum \<Rightarrow> jsprim"
  findBooksBySerie :: "jsnum \<Rightarrow> jsval \<Rightarrow> int \<Rightarrow> jsnum \<Rightarrow> 'b list"
  countBooksByAuthor :: "jsnum \<Rightarrow> jsprim"
  findBooksByAuthor :: "jsnum \<Rightarrow> jsval \<Rightarrow> int \<Rightarrow> jsnum \<Rightarrow> 'b list"
  getCoverData :: "jsnum \<Rightarrow> fileData option"

text \<open>The count and find queries a handler issues are recorded in the order of the
  calls, each with its arguments.\<close>

datatype query =
    CountBooks "string list option"
  | FindBooks "string list option" jsval int jsnum
  | CountBooksWithTags "string list option" jsnum
  | FindBooksWithTags "string list option" jsval jsnum int jsnum
  | CountBooksWithCC jsnum "string list option" jsnum
  | FindBooksWithCC jsnum "string list option" jsval jsnum int jsnum
  | CountBooksBySerie jsnum
  | FindBooksBySerie jsnum jsval int jsnum
  | CountBooksByAuthor jsnum
  | FindBooksByAuthor jsnum jsval int jsnum

section \<open>The list handler: \<^verbatim>\<open>listAction\<close>\<close>

text \<open>The two messages of \<^verbatim>\<open>listAction\<close>; the handler sends them wrapped in
  \<^verbatim>\<open><div class='message'><h3>\<close> ... \<^verbatim>\<open></h3></div>\<close>.\<close>

definition no_books_message :: string where
  "no_books_message = ''Keine B'' @ [CHR 0xFC] @ ''cher/Zeitschriften gefunden!''"

definition access_error_message :: string where
  "access_error_message = ''Fehler beim Zugriff auf die Datenbank!''"

text \<open>
  What the handler does with the response. The body of the \<^verbatim>\<open>end\<close> callback runs
  outside the \<^verbatim>\<open>try\<close> block of the handler, so that an exception raised in it reaches no
  \<^verbatim>\<open>catch\<close> and no response is sent. In \<open>Render_booklist\<close> the books are \<open>None\<close> when the
  variable \<^verbatim>\<open>books\<close> still holds its initial value, the empty object.
\<close>

datatype 'b response =
    Send_message string
  | Render_booklist "'b list option" pageNav
  | No_response exn

text \<open>The variables \<^verbatim>\<open>count\<close> and \<^verbatim>\<open>books\<close> after the \<^verbatim>\<open>switch\<close>, with the queries
  issued on the way.\<close>

record 'b listing =
  queries :: "query list"
  count :: jsprim
  books :: "'b list option"

text \<open>The statement \<^verbatim>\<open>switch (type) { ... }\<close> of \<^verbatim>\<open>listAction\<close>. The variables start as
  \<^verbatim>\<open>count = 0\<close> and \<^verbatim>\<open>books = {}\<close>.\<close>

definition listAction_switch ::
  "'b store \<Rightarrow> int \<Rightarrow> options \<Rightarrow> jsval \<Rightarrow> jsnum \<Rightarrow> jsval \<Rightarrow> exn + 'b listing" where
  "listAction_switch st PAGE_LIMIT options type page sortString =
    (if type = Str ''serie'' then
       let seriesId = int_option (options ''serieId'');
           count = countBooksBySerie st seriesId
       in if count \<noteq> Number (Num 0)
          then Inr \<lparr>queries = [CountBooksBySerie seriesId,
                     FindBooksBySerie seriesId sortString PAGE_LIMIT (js_mul page (Num PAGE_LIMIT))],
                   count = count,
                   books = Some (findBooksBySerie st seriesId sortString PAGE_LIMIT
                                   (js_mul page (Num PAGE_LIMIT)))\<rparr>
          else Inr \<lparr>queries = [CountBooksBySerie seriesId], count = count, books = None\<rparr>
     else if type = Str ''author'' then
       let authorsId = int_option (options ''authorsId'');
           count = countBooksByAuthor st authorsId
       in if count \<noteq> Number (Num 0)
          then Inr \<lparr>queries = [CountBooksByAuthor authorsId,
                     FindBooksByAuthor authorsId sortString PAGE_LIMIT (js_mul page (Num PAGE_LIMIT))],
                   count = count,
                   books = Some (findBooksByAuthor st authorsId sortString PAGE_LIMIT
                                   (js_mul page (Num PAGE_LIMIT)))\<rparr>
          else Inr \<lparr>queries = [CountBooksByAuthor authorsId], count = count, books = None\<rparr>
     else
       case search_option (options ''searchString'') of
         Inl e \<Rightarrow> Inl e
       | Inr searchArray \<Rightarrow>
           let tagId = int_option (options ''tagId'');
               ccNum = int_option (options ''ccNum'');
               ccId = int_option (options ''ccId'')
           in if truthy_prim (Number tagId) \<and> js_lt (Num 0) tagId then
                let count = countBooksWithTags st searchArray tagId
                in if count \<noteq> Number (Num 0)
                   then Inr \<lparr>queries = [CountBooksWithTags searchArray tagId,
                              FindBooksWithTags searchArray sortString tagId PAGE_LIMIT
                                (js_mul page (Num PAGE_LIMIT))],
                            count = count,
                            books = Some (findBooksWithTags st searchArray sortString tagId
                                            PAGE_LIMIT (js_mul page (Num PAGE_LIMIT)))\<rparr>
                   else Inr \<lparr>queries = [CountBooksWithTags searchArray tagId],
                            count = count, books = None\<rparr>
              else if truthy_prim (Number ccNum) \<and> js_lt (Num 0) ccNum then
                let count = countBooksWithCC st ccNum searchArray ccId
                in if count \<noteq> Number (Num 0)
                   then Inr \<lparr>queries = [CountBooksWithCC ccNum searchArray ccId,
                              FindBooksWithCC ccNum searchArray sortString ccId PAGE_LIMIT
                                (js_mul page (Num PAGE_LIMIT))],
                            count = count,
                            books = Some (findBooksWithCC st ccNum searchArray sortString ccId
                                            PAGE_LIMIT (js_mul page (Num PAGE_LIMIT)))\<rparr>
                   else Inr \<lparr>queries = [CountBooksWithCC ccNum searchArray ccId],
                            count = count, books = None\<rparr>
              else if tagId = Num 0 \<and> ccNum = Num 0 then
                let count = countBooks st searchArray
                in if truthy_prim count \<and> count \<noteq> Number (Num 0)
                   then Inr \<lparr>queries = [CountBooks searchArray,
                              FindBooks searchArray sortString PAGE_LIMIT
                                (js_mul page (Num PAGE_LIMIT))],
                            count = count,
                            books = Some (findBooks st searchArray sortString PAGE_LIMIT
                                            (js_mul page (Num PAGE_LIMIT)))\<rparr>
                   else Inr \<lparr>queries = [CountBooks searchArray], count = count, books = None\<rparr>
              else Inr \<lparr>queries = [], count = Number (Num 0), books = None\<rparr>)"

text \<open>
  \<^verbatim>\<open>listAction\<close>, from the parsed body on: \<open>params_type\<close> is \<^verbatim>\<open>request.params.type\<close>
  (\<^verbatim>\<open>undefined\<close> without the route parameter). The result is the list of queries issued
  and the response. \<^verbatim>\<open>addFields\<close>, which attaches authors, formats, series and tags to
  the books of the page and returns the same array, is not part of the model: the books
  are rendered as found.
\<close>

definition listAction ::
  "'b store \<Rightarrow> int \<Rightarrow> jsval \<Rightarrow> options \<Rightarrow> query list \<times> 'b response" where
  "listAction st PAGE_LIMIT params_type options =
    (let page = int_option (options ''page'');
         sortString = sort_option (options ''sortString'');
         type = (if truthy (options ''type'') then options ''type'' else params_type)
     in case listAction_switch st PAGE_LIMIT options type page sortString of
          Inl e \<Rightarrow> ([], No_response e)
        | Inr l \<Rightarrow>
            if js_le (toNumber (count l)) (Num 0) \<or> books l = Some []
            then (queries l,
                  Send_message (if count l = Number (Num 0) then no_books_message
                                else access_error_message))
            else (queries l, Render_booklist (books l) (getPageNavigation PAGE_LIMIT page (count l))))"

section \<open>The book handler: the neighbours of a book in \<^verbatim>\<open>bookAction\<close>\<close>

text \<open>\<^verbatim>\<open>a[0]\<close> on an array: the first element, or \<^verbatim>\<open>undefined\<close> (\<open>None\<close>) when it is empty.\<close>

fun first :: "'b list \<Rightarrow> 'b option" where
  "first [] = None"
| "first (x # xs) = Some x"

text \<open>The variables \<^verbatim>\<open>prevBook\<close> and \<^verbatim>\<open>nextBook\<close> that \<^verbatim>\<open>bookAction\<close> hands to the view;
  \<open>None\<close> is \<^verbatim>\<open>undefined\<close>.\<close>

record 'b neighbours =
  prevBook :: "'b option"
  nextBook :: "'b option"

text \<open>
  The two assignments every branch of the \<^verbatim>\<open>switch\<close> in \<^verbatim>\<open>bookAction\<close> makes, for the
  find function \<open>findX\<close> of the branch applied to all its arguments but the limit and the
  offset (\<open>mk\<close> builds the record of the query from the same two):
  \<^verbatim>\<open>prevBookArray = (rowNum === 0) ? [] : find(..., 1, rowNum - 1)\<close> and
  \<^verbatim>\<open>nextBookArray = find(..., 1, rowNum + 1)\<close>.
  The result is the queries issued, \<^verbatim>\<open>prevBookArray\<close> and \<^verbatim>\<open>nextBookArray\<close>.
\<close>

definition prev_next ::
  "(int \<Rightarrow> jsnum \<Rightarrow> 'b list) \<Rightarrow> (int \<Rightarrow> jsnum \<Rightarrow> query) \<Rightarrow> jsnum \<Rightarrow>
     query list \<times> 'b list option \<times> 'b list option" where
  "prev_next findX mk rowNum =
    (if rowNum = Num 0
     then ([mk 1 (js_add rowNum (Num 1))],
           Some [],
           Some (findX 1 (js_add rowNum (Num 1))))
     else ([mk 1 (js_sub rowNum (Num 1)), mk 1 (js_add rowNum (Num 1))],
           Some (findX 1 (js_sub rowNum (Num 1))),
           Some (findX 1 (js_add rowNum (Num 1)))))"

text \<open>The statement \<^verbatim>\<open>switch (type) { ... }\<close> of \<^verbatim>\<open>bookAction\<close>. Where no branch assigns
  them, \<^verbatim>\<open>prevBookArray\<close> and \<^verbatim>\<open>nextBookArray\<close> stay \<^verbatim>\<open>undefined\<close> (\<open>None\<close>).\<close>

definition bookAction_switch ::
  "'b store \<Rightarrow> options \<Rightarrow> jsval \<Rightarrow> jsnum \<Rightarrow> jsval \<Rightarrow>
     exn + query list \<times> 'b list option \<times> 'b list option" where
  "bookAction_switch st options type rowNum sortString =
    (if type = Str ''serie'' then
       let seriesId = int_option (options ''serieId'')
       in Inr (prev_next (findBooksBySerie st seriesId sortString)
                 (FindBooksBySerie seriesId sortString) rowNum)
     else if type = Str ''author'' then
       let authorsId = int_option (options ''authorsId'')
       in Inr (prev_next (findBooksByAuthor st authorsId sortString)
                 (FindBooksByAuthor authorsId sortString) rowNum)
     else
       case search_option (options ''searchString'') of
         Inl e \<Rightarrow> Inl e
       | Inr searchArray \<Rightarrow>
           let tagId = int_option (options ''tagId'');
               ccNum = int_option (options ''ccNum'');
               ccId = int_option (options ''ccId'')
           in if truthy_prim (Number tagId) \<and> js_lt (Num 0) tagId then
                Inr (prev_next (findBooksWithTags st searchArray sortString tagId)
                       (FindBooksWithTags searchArray sortString tagId) rowNum)
              else if truthy_prim (Number ccNum) \<and> js_lt (Num 0) ccNum then
                Inr (prev_next (findBooksWithCC st ccNum searchArray sortString ccId)
                       (FindBooksWithCC ccNum searchArray sortString ccId) rowNum)
              else if tagId = Num 0 \<and> ccNum = Num 0 then
                Inr (prev_next (findBooks st searchArray sortString)
                       (FindBooks searchArray sortString) rowNum)
              else Inr ([], None, None))"

text \<open>
  The part of \<^verbatim>\<open>bookAction\<close> that computes \<^verbatim>\<open>prevBook\<close> and \<^verbatim>\<open>nextBook\<close>, from the parsed
  body on: the find queries issued, and the two variables or the exception raised.
  Reading element 0 of an array variable that is still \<^verbatim>\<open>undefined\<close> raises;
  \<^verbatim>\<open>nextBookArray[0]\<close> is read first. The rest of the handler (the book itself with its
  formats, authors, publisher, tags and series) leaves the two variables as they are and
  passes them to the view.
\<close>

definition bookAction_neighbours ::
  "'b store \<Rightarrow> options \<Rightarrow> query list \<times> (exn + 'b neighbours)" where
  "bookAction_neighbours st options =
    (if options ''bookId'' \<noteq> Prim Undefined \<and> truthy (options ''num'') then
       let rowNum = js_sub (parseInt (options ''num'')) (Num 1);
           sortString = sort_option (options ''sortString'');
           type = options ''type''
       in case bookAction_switch st options type rowNum sortString of
            Inl e \<Rightarrow> ([], Inl e)
          | Inr (qs, prevBookArray, nextBookArray) \<Rightarrow>
              (case nextBookArray of
                 None \<Rightarrow> (qs, Inl (TypeError_property_of_undefined ''0''))
               | Some next \<Rightarrow>
                   (case prevBookArray of
                      None \<Rightarrow> (qs, Inl (TypeError_property_of_undefined ''0''))
                    | Some prev \<Rightarrow>
                        (qs, Inr \<lparr>prevBook = first prev, nextBook = first next\<rparr>)))
     else ([], Inr \<lparr>prevBook = None, nextBook = None\<rparr>))"

section \<open>Reading the queries\<close>

text \<open>The five filter dimensions, and the dimension each query belongs to.\<close>

datatype dimension = Plain_search | Tag | Custom_column | Serie | Author

fun dimension_of :: "query \<Rightarrow> dimension" where
  "dimension_of (CountBooks sa) = Plain_search"
| "dimension_of (FindBooks sa so l off) = Plain_search"
| "dimension_of (CountBooksWithTags sa t) = Tag"
| "dimension_of (FindBooksWithTags sa so t l off) = Tag"
| "dimension_of (CountBooksWithCC n sa i) = Custom_column"
| "dimension_of (FindBooksWithCC n sa so i l off) = Custom_column"
| "dimension_of (CountBooksBySerie i) = Serie"
| "dimension_of (FindBooksBySerie i so l off) = Serie"
| "dimension_of (CountBooksByAuthor i) = Author"
| "dimension_of (FindBooksByAuthor i so l off) = Author"

text \<open>What the store answers to a recorded query.\<close>

fun count_answer :: "'b store \<Rightarrow> query \<Rightarrow> jsprim option" where
  "count_answer st (CountBooks sa) = Some (countBooks st sa)"
| "count_answer st (CountBooksWithTags sa t) = Some (countBooksWithTags st sa t)"
| "count_answer st (CountBooksWithCC n sa i) = Some (countBooksWithCC st n sa i)"
| "count_answer st (CountBooksBySerie i) = Some (countBooksBySerie st i)"
| "count_answer st (CountBooksByAuthor i) = Some (countBooksByAuthor st i)"
| "count_answer st q = None"


text \<open>All the queries of a list belong to one dimension, and there is at least one.\<close>

definition only_dimension :: "dimension \<Rightarrow> query list \<Rightarrow> bool" where
  "only_dimension d qs = (qs \<noteq> [] \<and> list_all (\<lambda>q. dimension_of q = d) qs)"



text \<open>The precedence as the specification words it: tag, else custom column, else plain
  search.\<close>

definition spec_dimension :: "jsnum \<Rightarrow> jsnum \<Rightarrow> dimension" where
  "spec_dimension tagId ccNum =
    (if js_lt (Num 0) tagId then Tag
     else if js_lt (Num 0) ccNum then Custom_column
     else Plain_search)"

section \<open>A sample catalog\<close>

text \<open>A store of 95 books, numbered from 1, that every filter matches: each count
  query answers 95 and each find query answers the books from the offset on, up to the
  limit. A limit or an offset that is negative, infinite or not a number selects
  nothing.\<close>

definition rows :: "nat list \<Rightarrow> int \<Rightarrow> jsnum \<Rightarrow> nat list" where
  "rows xs limit offset =
    (case offset of
       Num off \<Rightarrow> if 0 \<le> off \<and> 0 \<le> limit then take (nat limit) (drop (nat off) xs) else []
     | _ \<Rightarrow> [])"

definition sample_store :: "nat store" where
  "sample_store =
    \<lparr>countBooks = (\<lambda>sa. Number (Num 95)),
     findBooks = (\<lambda>sa so. rows [1..<96]),
     countBooksWithTags = (\<lambda>sa t. Number (Num 95)),
     findBooksWithTags = (\<lambda>sa so t. rows [1..<96]),
     countBooksWithCC = (\<lambda>n sa i. Number (Num 95)),
     findBooksWithCC = (\<lambda>n sa so i. rows [1..<96]),
     countBooksBySerie = (\<lambda>i. Number (Num 95)),
     findBooksBySerie = (\<lambda>i so. rows [1..<96]),
     countBooksByAuthor = (\<lambda>i. Number (Num 95)),
     findBooksByAuthor = (\<lambda>i so. rows [1..<96]),
     getCoverData = (\<lambda>i. case i of
                            Num n \<Rightarrow> if 1 \<le> n \<and> n \<le> 95
                                     then Some \<lparr>path = ''Author/Title'', bookId = nat n\<rparr>
                                     else None
                          | _ \<Rightarrow> None)\<rparr>"

text \<open>The same store with a count query for the plain search that answers
  \<^verbatim>\<open>undefined\<close>.\<close>

definition undefined_count_store :: "nat store" where
  "undefined_count_store = sample_store\<lparr>countBooks := (\<lambda>sa. Undefined)\<rparr>"

section \<open>Cover thumbnails\<close>

text \<open>A number as \<^verbatim>\<open>"" + n\<close> prints it, for a natural number: its decimal digits.\<close>

definition digit_char :: "nat \<Rightarrow> char" where
  "digit_char d = ''0123456789'' ! d"

fun string_of_nat :: "nat \<Rightarrow> string" where
  "string_of_nat n =
    (if n < 10 then [digit_char n]
     else string_of_nat (n div 10) @ [digit_char (n mod 10)])"

declare string_of_nat.simps [simp del]

text \<open>\<^verbatim>\<open>s.slice(-k)\<close>: the last \<open>k\<close> characters, or all of \<open>s\<close> when it is shorter; and
  \<^verbatim>\<open>s.substring(0, k)\<close>.\<close>

definition slice_last :: "nat \<Rightarrow> string \<Rightarrow> string" where
  "slice_last k s = drop (length s - k) s"

definition substring0 :: "nat \<Rightarrow> string \<Rightarrow> string" where
  "substring0 k s = take k s"

text \<open>
  The environment of the cover handlers: the constants \<^verbatim>\<open>BOOKDIR\<close> and \<^verbatim>\<open>IMGCACHE\<close> of
  the module, and what \<^verbatim>\<open>sharp\<close> computes from an image and a geometry. Images are of
  some type \<open>'i\<close>.
\<close>

datatype resizeData = Height nat | Width nat

record 'i env =
  BOOKDIR :: string
  IMGCACHE :: string
  sharp_resize :: "resizeData \<Rightarrow> 'i \<Rightarrow> 'i"

text \<open>The file system: the image stored at each path that holds a file, the
  directories, and the calls to \<^verbatim>\<open>sharp\<close> so far (source, geometry and target).\<close>

record 'i world =
  files :: "string \<Rightarrow> 'i option"
  dirs :: "string set"
  resizes :: "(string \<times> resizeData \<times> string) list"

datatype 'i cover_response =
    Send_file string 'i
  | Status_500 string exn
  | Unanswered

text \<open>\<^verbatim>\<open>errorHandler(error, response, actionName)\<close> answers with status 500 and a message
  made of the name of the action and the message of the error.\<close>

definition errorHandler :: "exn \<Rightarrow> string \<Rightarrow> 'i cover_response" where
  "errorHandler error actionName = Status_500 actionName error"

text \<open>\<^verbatim>\<open>response.sendFile(targetFile, { root: targetDir }, callback)\<close>: the file is sent when
  it exists. Otherwise the callback gets the error; both callbacks in
  \<^verbatim>\<open>sendResizedCover\<close> test the variable \<^verbatim>\<open>error\<close> of \<^verbatim>\<open>pathExists\<close>, which is null, and do
  nothing, so that no response is sent.\<close>

definition sendFile :: "'i world \<Rightarrow> string \<Rightarrow> string \<Rightarrow> 'i cover_response" where
  "sendFile w root name =
    (case files w (root @ ''/'' @ name) of
       Some img \<Rightarrow> Send_file (root @ ''/'' @ name) img
     | None \<Rightarrow> Unanswered)"

text \<open>
  \<^verbatim>\<open>sendResizedCover(response, source, targetDir, targetFile, resizeData)\<close>.
  \<^verbatim>\<open>fs.pathExists\<close> reports a path it cannot reach as absent and never passes an error.
  \<^verbatim>\<open>sharp(source).resize(resizeData).toFile(target, callback)\<close> writes the resized image
  when the source file exists and writes nothing otherwise; its callback ignores the
  outcome (it tests \<^verbatim>\<open>error\<close>, not \<^verbatim>\<open>err\<close>) and sends the target file either way.
\<close>

definition sendResizedCover ::
  "'i env \<Rightarrow> string \<Rightarrow> string \<Rightarrow> string \<Rightarrow> resizeData \<Rightarrow> 'i world \<Rightarrow>
     'i cover_response \<times> 'i world" where
  "sendResizedCover env source targetDir targetFile resizeData w =
    (let target = targetDir @ ''/'' @ targetFile
     in case files w target of
          Some cached \<Rightarrow> (sendFile w targetDir targetFile, w)
        | None \<Rightarrow>
            let called = w\<lparr>resizes := resizes w @ [(source, resizeData, target)]\<rparr>;
                w' = (case files w source of
                        Some img \<Rightarrow>
                          called\<lparr>files := (files w)(target \<mapsto> sharp_resize env resizeData img)\<rparr>
                      | None \<Rightarrow> called)
            in (sendFile w' targetDir targetFile, w'))"

text \<open>The arguments with which \<^verbatim>\<open>coverListAction\<close> and \<^verbatim>\<open>coverBookAction\<close> call
  \<^verbatim>\<open>sendResizedCover\<close> for the cover data \<open>fileData\<close> of the store: \<^verbatim>\<open>source\<close>,
  \<^verbatim>\<open>targetDir\<close>, the name of the target file and the geometry.\<close>

definition coverList_target :: "'i env \<Rightarrow> fileData \<Rightarrow> string \<times> string \<times> string \<times> resizeData" where
  "coverList_target env fileData =
    (BOOKDIR env @ ''/'' @ path fileData @ ''/cover.jpg'',
     IMGCACHE env @ ''/1'' @
       substring0 2 (slice_last 5 (''0000'' @ string_of_nat (bookId fileData))),
     string_of_nat (bookId fileData) @ ''.jpg'',
     Height 250)"

definition coverBook_target :: "'i env \<Rightarrow> fileData \<Rightarrow> string \<times> string \<times> string \<times> resizeData" where
  "coverBook_target env fileData =
    (BOOKDIR env @ ''/'' @ path fileData @ ''/cover.jpg'',
     IMGCACHE env @ ''/0'' @
       substring0 2 (slice_last 5 (''0000'' @ string_of_nat (bookId fileData))),
     string_of_nat (bookId fileData) @ ''.jpg'',
     Width 320)"

text \<open>\<^verbatim>\<open>coverListAction\<close>: \<open>params_id\<close> is \<^verbatim>\<open>request.params.id\<close>. Without cover data the body of
  the \<^verbatim>\<open>if\<close> is skipped and the handler ends without a response.\<close>

definition coverListAction ::
  "'i env \<Rightarrow> 'b store \<Rightarrow> string \<Rightarrow> 'i world \<Rightarrow> 'i cover_response \<times> 'i world" where
  "coverListAction env st params_id w =
    (case getCoverData st (parseInt_string params_id) of
       None \<Rightarrow> (Unanswered, w)
     | Some fileData \<Rightarrow>
         (case coverList_target env fileData of
            (source, targetDir, targetFile, resizeData) \<Rightarrow>
              sendResizedCover env source targetDir targetFile resizeData
                (w\<lparr>dirs := insert targetDir (dirs w)\<rparr>)))"

text \<open>\<^verbatim>\<open>coverBookAction\<close> has no such test: without cover data, reading
  \<^verbatim>\<open>fileData.path\<close> raises, and the \<^verbatim>\<open>catch\<close> of the handler calls \<^verbatim>\<open>errorHandler\<close>.\<close>

definition coverBookAction ::
  "'i env \<Rightarrow> 'b store \<Rightarrow> string \<Rightarrow> 'i world \<Rightarrow> 'i cover_response \<times> 'i world" where
  "coverBookAction env st params_id w =
    (case getCoverData st (parseInt_string params_id) of
       None \<Rightarrow> (errorHandler (TypeError_property_of_undefined ''path'') ''coverBookAction'', w)
     | Some fileData \<Rightarrow>
         (case coverBook_target env fileData of
            (source, targetDir, targetFile, resizeData) \<Rightarrow>
              sendResizedCover env source targetDir targetFile resizeData
                (w\<lparr>dirs := insert targetDir (dirs w)\<rparr>)))"

text \<open>The shard as the specification words it: the two most significant digits of the
  id, padded with zeros on the left to five digits.\<close>

definition spec_shard :: "nat \<Rightarrow> string" where
  "spec_shard n =
    take 2 (replicate (5 - length (string_of_nat n)) (CHR ''0'') @ string_of_nat n)"

text \<open>A sample environment, in which an image is the list of the geometries applied to
  it, and a file system that holds the covers of the books 42 and 123456.\<close>

definition sample_env :: "resizeData list env" where
  "sample_env = \<lparr>BOOKDIR = ''/books'', IMGCACHE = ''./Cache'',
                 sharp_resize = (\<lambda>g img. img @ [g])\<rparr>"

definition cover_store :: "nat store" where
  "cover_store = sample_store\<lparr>getCoverData :=
     (\<lambda>i. if i = Num 42 then Some \<lparr>path = ''Author/Title (42)'', bookId = 42\<rparr>
          else if i = Num 123456 then Some \<lparr>path = ''Author/Title (123456)'', bookId = 123456\<rparr>
          else None)\<rparr>"

definition sample_world :: "resizeData list world" where
  "sample_world =
    \<lparr>files = [''/books/Author/Title (42)/cover.jpg'' \<mapsto> [],
              ''/books/Author/Title (123456)/cover.jpg'' \<mapsto> []],
     dirs = {''./Cache''},
     resizes = []\<rparr>"

text \<open>Sample requests: a search for \<^verbatim>\<open>Harry Potter\<close> with a tag and a custom column,
  for the second item of its listing; and a request whose tag id is negative.\<close>

definition sample_options :: options where
  "sample_options =
     no_options(''searchString'' := Str ''Harry Potter'', ''tagId'' := Str ''5'',
       ''ccNum'' := Str ''3'', ''bookId'' := Str ''7'', ''num'' := Str ''2'')"


definition negative_tag_options :: options where
  "negative_tag_options = no_options(''tagId'' := Prim (Number (Num (- 1))))"

section \<open>Arithmetic on integers that a double holds exactly\<close>

lemma double_of_int_exact: "\<bar>i\<bar> \<le> 2 ^ 53 \<Longrightarrow> double_of_int i = Num i"
  by (simp add: double_of_int_def)

lemma ceil_quotient_exact:
  "b \<noteq> 0 \<Longrightarrow> \<bar>a\<bar> \<le> 2 ^ 53 \<Longrightarrow> ceil_quotient a b = Num (- ((- a) div b))"
  by (simp add: ceil_quotient_def)

section \<open>Properties of the pagination calculator\<close>

text \<open>
  Claim C7. For every total count that does not exceed the page size, whatever page is
  requested, the pagination calculator returns an object that carries only
  \<^verbatim>\<open>size = totalCount\<close>: none of the navigation links is produced.
\<close>

theorem getPageNavigation_single_page:
  assumes "totalCount \<le> PAGE_LIMIT"
  shows "getPageNavigation PAGE_LIMIT page (Number (Num totalCount)) =
           \<lparr>size' = Number (Num totalCount), currentpage = None, firstpage = None,
            prevpage = None, nextpage = None, lastpage = None\<rparr>"
  using assms by (simp add: getPageNavigation_def)

theorem getPageNavigation_single_page_witness:
  "(12::int) \<le> 30 \<and>
   getPageNavigation 30 (Num 4) (Number (Num 12)) =
     \<lparr>size' = Number (Num 12), currentpage = None, firstpage = None,
      prevpage = None, nextpage = None, lastpage = None\<rparr>"
  using getPageNavigation_single_page [of 12 30 "Num 4"] by simp

text \<open>
  Claim C2, as amended. For a total count of 95, a page size of 30 and the requested
  page 10, the pagination calculator clamps the page to the last page, which is 3
  (\<open>\<lceil>95 / 30\<rceil> - 1\<close>); no error is raised. In the navigation it returns, the first
  and the previous page are enabled (the previous page is 2), the next page is
  disabled, and the last page is enabled at page 3.
\<close>

theorem getPageNavigation_95_30_10:
  "getPageNavigation 30 (Num 10) (Number (Num 95)) =
     \<lparr>size' = Number (Num 95), currentpage = Some (Num 3),
      firstpage = Some (enabled (Str ''0'')),
      prevpage = Some (enabled (Prim (Number (Num 2)))),
      nextpage = Some disabled,
      lastpage = Some (enabled (Prim (Number (Num 3))))\<rparr>"
  by (simp add: getPageNavigation_def Let_def ceil_quotient_exact js_sub_def double_of_int_exact)

section \<open>Properties of the tokenizer\<close>

lemma split_char_nonempty: "split_char c x \<noteq> []"
  by (induction x) (auto split: list.splits)

lemma join_split_char: "join [c] (split_char c x) = x"
proof (induction x)
  case Nil
  show ?case by simp
next
  case (Cons a x)
  obtain t ts where ts: "split_char c x = t # ts"
    using split_char_nonempty [of c x] by (cases "split_char c x") auto
  with Cons show ?case by (cases ts) auto
qed

lemma replaceAll_char_absent: "c \<notin> set x \<Longrightarrow> replaceAll_char c t x = x"
  by (induction x) (auto simp: replaceAll_char_def)

lemma set_replaceAll_char: "set (replaceAll_char c t x) \<subseteq> (set x - {c}) \<union> set t"
  by (induction x) (auto simp: replaceAll_char_def)

lemma set_replaceAll_runs: "set (replaceAll_runs cls t x) \<subseteq> set x \<union> set t"
proof (induction cls t x rule: replaceAll_runs.induct)
  case (1 cls t)
  show ?case by simp
next
  case (2 cls t c cs)
  have "set (dropWhile cls cs) \<subseteq> set cs" by (rule set_dropWhileD [THEN subsetI])
  with 2 show ?case by auto
qed

lemma set_trim: "set (trim s) \<subseteq> set s"
proof -
  have "set (dropWhile P xs) \<subseteq> set xs" for P and xs :: string
    by (rule set_dropWhileD [THEN subsetI])
  then show ?thesis unfolding trim_def by (metis set_rev subset_trans)
qed

lemma of_char_lower_char:
  "(of_char (lower_char c) :: nat) =
     (let n = of_char c in
      if (65 \<le> n \<and> n \<le> 90) \<or> (192 \<le> n \<and> n \<le> 222 \<and> n \<noteq> 215) then n + 32 else n)"
  by (auto simp: lower_char_def Let_def)

lemma lower_char_idem: "lower_char (lower_char c) = lower_char c"
  by (rule of_char_eqI [where ?'a = nat]) (auto simp: of_char_lower_char Let_def)

lemma lower_char_quote: "lower_char c = CHR 0x27 \<longleftrightarrow> c = CHR 0x27"
proof -
  have "(of_char (lower_char c) :: nat) = 39 \<longleftrightarrow> (of_char c :: nat) = 39"
    by (auto simp: of_char_lower_char Let_def)
  moreover have "(of_char (CHR 0x27) :: nat) = 39" by simp
  ultimately show ?thesis by (metis of_char_eq_iff)
qed

lemma lower_char_space: "lower_char (CHR '' '') = CHR '' ''"
  by (simp add: lower_char_def)

lemma dropWhile_replaceAll_runs:
  assumes "d = [] \<or> \<not> cls (hd d)"
  shows "dropWhile cls (replaceAll_runs cls t d) = replaceAll_runs cls t d"
  using assms by (cases d) auto

lemma replaceAll_runs_idem:
  "replaceAll_runs cls [sp] (replaceAll_runs cls [sp] x) = replaceAll_runs cls [sp] x"
proof (induction cls "[sp]" x rule: replaceAll_runs.induct)
  case (1 cls)
  show ?case by simp
next
  case (2 cls c cs)
  show ?case
  proof (cases "cls c")
    case True
    let ?d = "dropWhile cls cs"
    have "?d = [] \<or> \<not> cls (hd ?d)" using hd_dropWhile [of cls cs] by blast
    then have "dropWhile cls (replaceAll_runs cls [sp] ?d) = replaceAll_runs cls [sp] ?d"
      by (rule dropWhile_replaceAll_runs)
    with True 2 show ?thesis by simp
  next
    case False
    with 2 show ?thesis by simp
  qed
qed

text \<open>The string that \<^verbatim>\<open>searchStringToArray\<close> builds before it doubles the quotes is
  a fixed point of the first three steps.\<close>

lemma normal_form_facts:
  fixes s :: string
  defines "m \<equiv> replaceAll_runs whitespace_chars '' ''
                 (replaceAll_char whitespace_char01 '' '' (toLowerCase (trim s)))"
  shows "toLowerCase m = m"
    and "replaceAll_char whitespace_char01 '' '' m = m"
    and "replaceAll_runs whitespace_chars '' '' m = m"
    and "CHR 0x27 \<notin> set s \<Longrightarrow> CHR 0x27 \<notin> set m"
proof -
  let ?l = "toLowerCase (trim s)"
  let ?r = "replaceAll_char whitespace_char01 '' '' ?l"
  have sub_m: "set m \<subseteq> set ?r \<union> {CHR '' ''}"
    unfolding m_def using set_replaceAll_runs [of whitespace_chars "'' ''" ?r] by simp
  have sub_r: "set ?r \<subseteq> (set ?l - {whitespace_char01}) \<union> {CHR '' ''}"
    using set_replaceAll_char [of whitespace_char01 "'' ''" ?l] by simp
  have fixed: "lower_char c = c" if "c \<in> set m" for c
  proof -
    from that sub_m sub_r have "c \<in> set ?l \<or> c = CHR '' ''" by blast
    then show ?thesis
      by (auto simp: toLowerCase_def lower_char_idem lower_char_space)
  qed
  then show "toLowerCase m = m"
    unfolding toLowerCase_def by (simp add: map_idI)
  have "whitespace_char01 \<noteq> CHR '' ''"
    by (simp add: whitespace_char01_def)
  with sub_m sub_r have "whitespace_char01 \<notin> set m" by blast
  then show "replaceAll_char whitespace_char01 '' '' m = m"
    by (rule replaceAll_char_absent)
  show "replaceAll_runs whitespace_chars '' '' m = m"
    unfolding m_def by (rule replaceAll_runs_idem)
  show "CHR 0x27 \<notin> set m" if "CHR 0x27 \<notin> set s"
  proof -
    from that set_trim [of s] have "CHR 0x27 \<notin> set (trim s)" by blast
    then have "CHR 0x27 \<notin> set ?l"
      unfolding toLowerCase_def by (metis imageE list.set_map lower_char_quote)
    with sub_m sub_r show ?thesis by auto
  qed
qed

text \<open>
  Claim C9, as amended. Tokenizing the space-join of the tokens of \<open>s\<close> gives the tokens
  of \<open>s\<close> again whenever \<open>s\<close> contains no single quote and the joined string has no
  white space at either end (so that \<^verbatim>\<open>trim\<close> leaves it alone). The quotes are doubled
  at every pass, and a leading or trailing empty token is trimmed away by the second
  pass, so that the property does not hold for every string.
\<close>

theorem searchStringToArray_idempotent:
  assumes quote: "CHR 0x27 \<notin> set s"
    and edges: "trim (join '' '' (searchStringToArray s)) = join '' '' (searchStringToArray s)"
  shows "searchStringToArray (join '' '' (searchStringToArray s)) = searchStringToArray s"
proof -
  define m where "m = replaceAll_runs whitespace_chars '' ''
                 (replaceAll_char whitespace_char01 '' '' (toLowerCase (trim s)))"
  have q: "CHR 0x27 \<notin> set m"
    unfolding m_def using quote by (rule normal_form_facts(4))
  then have dq: "replaceAll_char (CHR 0x27) [CHR 0x27, CHR 0x27] m = m"
    by (rule replaceAll_char_absent)
  have tok: "searchStringToArray s = split_char (CHR '' '') m"
    unfolding searchStringToArray_def m_def [symmetric] dq ..
  have j: "join '' '' (searchStringToArray s) = m"
    unfolding tok by (rule join_split_char)
  from edges have t: "trim m = m" unfolding j .
  have "searchStringToArray (join '' '' (searchStringToArray s)) = searchStringToArray m"
    by (simp only: j)
  also have "\<dots> = split_char (CHR '' '') m"
    unfolding searchStringToArray_def t
    using normal_form_facts(1-3) [of s] dq by (simp add: m_def)
  also have "\<dots> = searchStringToArray s"
    by (simp only: tok)
  finally show ?thesis .
qed

text \<open>The hypotheses hold of \<^verbatim>\<open>"Harry  Potter"\<close>, whose tokens are \<^verbatim>\<open>harry\<close> and
  \<^verbatim>\<open>potter\<close>.\<close>

theorem searchStringToArray_idempotent_witness:
  "CHR 0x27 \<notin> set ''Harry  Potter'' \<and>
   trim (join '' '' (searchStringToArray ''Harry  Potter'')) =
     join '' '' (searchStringToArray ''Harry  Potter'') \<and>
   searchStringToArray (join '' '' (searchStringToArray ''Harry  Potter'')) =
     searchStringToArray ''Harry  Potter''"
proof -
  have h1: "CHR 0x27 \<notin> set ''Harry  Potter''" by simp
  have h2: "trim (join '' '' (searchStringToArray ''Harry  Potter'')) =
     join '' '' (searchStringToArray ''Harry  Potter'')" by code_simp
  from searchStringToArray_idempotent [OF h1 h2] h1 h2 show ?thesis by blast
qed

text \<open>
  Claim C9 as first stated fails on a string with a single quote: the tokens of
  \<^verbatim>\<open>a'b\<close> are \<^verbatim>\<open>["a''b"]\<close>, and the tokens of \<^verbatim>\<open>a''b\<close> are \<^verbatim>\<open>["a''''b"]\<close>.
\<close>

theorem searchStringToArray_not_idempotent:
  "searchStringToArray (join '' '' (searchStringToArray [CHR ''a'', CHR 0x27, CHR ''b'']))
     \<noteq> searchStringToArray [CHR ''a'', CHR 0x27, CHR ''b'']"
  by code_simp

text \<open>
  Claim C8, as amended. \<^verbatim>\<open>searchStringToArray\<close> is the specified pipeline applied to
  the trimmed input: white space is stripped from both ends first, then the string is
  lower-cased, the alternate separator becomes a space, runs of the separator class
  collapse to one space, single quotes are doubled, and the result is split on spaces.
  \<^verbatim>\<open>"Harry Potter"\<close> gives \<^verbatim>\<open>["harry", "potter"]\<close> and the empty string gives one empty
  token.
\<close>

theorem searchStringToArray_trims_first:
  "searchStringToArray s = spec_tokenize (trim s) \<and>
   searchStringToArray ''Harry Potter'' = [''harry'', ''potter''] \<and>
   searchStringToArray [] = [[]]"
proof -
  have "searchStringToArray s = spec_tokenize (trim s)"
    by (simp add: searchStringToArray_def spec_tokenize_def)
  moreover have "searchStringToArray ''Harry Potter'' = [''harry'', ''potter'']"
    by code_simp
  moreover have "searchStringToArray [] = [[]]"
    by code_simp
  ultimately show ?thesis by blast
qed

text \<open>
  Claim C8 as first stated, without the trim, fails on \<^verbatim>\<open>" a"\<close>: the code returns
  \<^verbatim>\<open>["a"]\<close>, the pipeline of the specification \<^verbatim>\<open>["", "a"]\<close>.
\<close>

theorem searchStringToArray_differs_from_spec:
  "searchStringToArray '' a'' \<noteq> spec_tokenize '' a''"
  by code_simp

section \<open>Properties of the list handler\<close>

lemma positive_truthy: "js_lt (Num 0) n \<Longrightarrow> truthy_prim (Number n)"
  by (cases n) auto

lemma only_dimension_simps:
  "only_dimension d [] = False"
  "only_dimension d (q # qs) = (dimension_of q = d \<and> (qs = [] \<or> only_dimension d qs))"
  by (auto simp: only_dimension_def)

text \<open>The first query a list request issues is its count query, and the variable
  \<^verbatim>\<open>count\<close> holds the answer.\<close>

lemma listAction_switch_first_query:
  assumes "listAction_switch st PAGE_LIMIT options type page sortString = Inr l"
    and "queries l = q # qs"
    and "count_answer st q = Some c"
  shows "count l = c"
  using assms
  by (auto simp: listAction_switch_def Let_def split: if_splits sum.splits)

text \<open>A list request for page 10 of the sample catalog asks the store for the rows from
  offset 300 on, before any clamping; the store has none, and the response is the
  message of an access error.\<close>

lemma listAction_page_out_of_range:
  "listAction sample_store 30 (Prim Undefined) (no_options(''page'' := Prim (Number (Num 10)))) =
     ([CountBooks None, FindBooks None (Str []) 30 (Num 300)], Send_message access_error_message)"
  by (simp add: listAction_def listAction_switch_def Let_def no_options_def int_option_def
        sort_option_def sample_store_def rows_def double_of_int_exact)

text \<open>
  Claim C2 as first stated puts the last page at 2: in the navigation neither the
  current page nor the link to the last page is 2. And it is the calculator that clamps,
  not the list request: the request for page 10 of the sample catalog of 95 books gets
  the message of an access error.
\<close>

theorem page_10_of_95_not_clamped_to_2:
  "currentpage (getPageNavigation 30 (Num 10) (Number (Num 95))) \<noteq> Some (Num 2) \<and>
   lastpage (getPageNavigation 30 (Num 10) (Number (Num 95))) \<noteq>
     Some (enabled (Prim (Number (Num 2)))) \<and>
   snd (listAction sample_store 30 (Prim Undefined)
          (no_options(''page'' := Prim (Number (Num 10))))) =
     Send_message access_error_message"
  by (simp add: getPageNavigation_def Let_def enabled_def listAction_page_out_of_range
        ceil_quotient_exact js_sub_def double_of_int_exact)

text \<open>What the handler answers to a count of 0 and to a count other than 0 that is at
  most 0 in the comparison of JavaScript (a negative number, \<^verbatim>\<open>null\<close> or \<^verbatim>\<open>false\<close>).\<close>

lemma list_count_messages:
  assumes "listAction st PAGE_LIMIT params_type options = (q # qs, r)"
    and "count_answer st q = Some c"
  shows "(c = Number (Num 0) \<longrightarrow> r = Send_message no_books_message) \<and>
         (js_le (toNumber c) (Num 0) \<and> c \<noteq> Number (Num 0) \<longrightarrow>
            r = Send_message access_error_message)"
proof -
  let ?page = "int_option (options ''page'')"
  let ?sort = "sort_option (options ''sortString'')"
  let ?type = "if truthy (options ''type'') then options ''type'' else params_type"
  from assms(1) obtain l where
    sw: "listAction_switch st PAGE_LIMIT options ?type ?page ?sort = Inr l"
    by (auto simp: listAction_def Let_def split: sum.splits)
  with assms(1) have q: "queries l = q # qs"
    by (auto simp: listAction_def Let_def split: if_splits)
  from sw q assms(2) have c: "count l = c" by (rule listAction_switch_first_query)
  from assms(1) sw c show ?thesis
    by (auto simp: listAction_def Let_def split: if_splits)
qed

text \<open>The two cases at work: a store whose plain count is 0, and one whose plain count
  is \<^verbatim>\<open>null\<close>.\<close>

lemma list_count_zero_and_null:
  "listAction (sample_store\<lparr>countBooks := (\<lambda>sa. Number (Num 0))\<rparr>) 30 (Prim Undefined)
     no_options = ([CountBooks None], Send_message no_books_message) \<and>
   listAction (sample_store\<lparr>countBooks := (\<lambda>sa. Null)\<rparr>) 30 (Prim Undefined)
     no_options = ([CountBooks None], Send_message access_error_message)"
  by (simp add: listAction_def listAction_switch_def Let_def no_options_def int_option_def
        sort_option_def sample_store_def)

text \<open>In the tag branch the find query is guarded by \<^verbatim>\<open>count !== 0\<close> alone: with a count
  query that answers \<^verbatim>\<open>undefined\<close> the find query is issued, and when it finds no row the
  response is the message of an access error.\<close>

lemma list_tag_count_undefined:
  "listAction (sample_store\<lparr>countBooksWithTags := (\<lambda>sa t. Undefined),
                            findBooksWithTags := (\<lambda>sa so t l off. [])\<rparr>)
     30 (Prim Undefined) (no_options(''tagId'' := Prim (Number (Num 5)))) =
     ([CountBooksWithTags None (Num 5), FindBooksWithTags None (Str []) (Num 5) 30 (Num 0)],
      Send_message access_error_message)"
  by (simp add: listAction_def listAction_switch_def Let_def no_options_def int_option_def
        sort_option_def sample_store_def double_of_int_exact)

text \<open>
  Claim C4. For a count query that returns a falsy value other than 0 the claim promises
  the message of an access error. The plain search guards its find query by
  \<^verbatim>\<open>count && count !== 0\<close> and then tests \<^verbatim>\<open>count <= 0 || books.length === 0\<close>. With a
  count query that answers \<^verbatim>\<open>undefined\<close>, the request with an empty body skips the find
  query; \<^verbatim>\<open>undefined <= 0\<close> is false, and \<^verbatim>\<open>books\<close> is still the object it was
  initialised with, which has no \<^verbatim>\<open>length\<close>: no message is sent, and the handler renders
  the list page with that object and a navigation of disabled links.
\<close>

theorem list_count_undefined:
  "listAction undefined_count_store 30 (Prim Undefined) no_options =
     ([CountBooks None],
      Render_booklist None
        \<lparr>size' = Undefined, currentpage = Some (Num 0), firstpage = Some disabled,
         prevpage = Some disabled, nextpage = Some disabled, lastpage = Some disabled\<rparr>)"
  by (simp add: listAction_def listAction_switch_def Let_def no_options_def int_option_def
        sort_option_def undefined_count_store_def sample_store_def getPageNavigation_def
        js_sub_def double_of_int_exact)

section \<open>Which dimension a request selects\<close>

text \<open>
  Claim C1, as amended. For every list or book-detail request whose type is neither
  \<^verbatim>\<open>serie\<close> nor \<^verbatim>\<open>author\<close> and whose search string, if any, is a string, at most one
  filter dimension is active: if \<^verbatim>\<open>tagId > 0\<close> all the count and find queries issued are
  tag queries; else if \<^verbatim>\<open>ccNum > 0\<close> they are custom-column queries; else if \<^verbatim>\<open>tagId\<close> and
  \<^verbatim>\<open>ccNum\<close> are both 0 they are plain-search queries; in each of these cases at least one
  query is issued (by a book-detail request, when it carries \<^verbatim>\<open>bookId\<close> and \<^verbatim>\<open>num\<close>).
  Otherwise, when \<^verbatim>\<open>tagId\<close> or \<^verbatim>\<open>ccNum\<close> is negative or not a number and neither is
  positive, no dimension is active and no count or find query is issued.
\<close>

theorem filter_precedence:
  fixes st :: "'b store" and options :: options and PAGE_LIMIT :: int and params_type :: jsval
  defines "tagId \<equiv> int_option (options ''tagId'')"
    and "ccNum \<equiv> int_option (options ''ccNum'')"
    and "list_queries \<equiv> fst (listAction st PAGE_LIMIT params_type options)"
    and "book_queries \<equiv> fst (bookAction_neighbours st options)"
  assumes type:
      "(if truthy (options ''type'') then options ''type'' else params_type) \<noteq> Str ''serie''"
      "(if truthy (options ''type'') then options ''type'' else params_type) \<noteq> Str ''author''"
    and search: "search_option (options ''searchString'') = Inr searchArray"
  shows
    "(js_lt (Num 0) tagId \<longrightarrow>
        only_dimension Tag list_queries \<and>
        (options ''bookId'' \<noteq> Prim Undefined \<and> truthy (options ''num'') \<longrightarrow>
           only_dimension Tag book_queries)) \<and>
     (\<not> js_lt (Num 0) tagId \<and> js_lt (Num 0) ccNum \<longrightarrow>
        only_dimension Custom_column list_queries \<and>
        (options ''bookId'' \<noteq> Prim Undefined \<and> truthy (options ''num'') \<longrightarrow>
           only_dimension Custom_column book_queries)) \<and>
     (tagId = Num 0 \<and> ccNum = Num 0 \<longrightarrow>
        only_dimension Plain_search list_queries \<and>
        (options ''bookId'' \<noteq> Prim Undefined \<and> truthy (options ''num'') \<longrightarrow>
           only_dimension Plain_search book_queries)) \<and>
     (\<not> js_lt (Num 0) tagId \<and> \<not> js_lt (Num 0) ccNum \<and> \<not> (tagId = Num 0 \<and> ccNum = Num 0) \<longrightarrow>
        list_queries = [] \<and> book_queries = [])"
proof -
  have type': "options ''type'' \<noteq> Str ''serie''" "options ''type'' \<noteq> Str ''author''"
    using type by (auto split: if_splits)
  note list_defs = list_queries_def listAction_def listAction_switch_def Let_def
    tagId_def ccNum_def only_dimension_simps
  note book_defs = book_queries_def bookAction_neighbours_def bookAction_switch_def
    prev_next_def Let_def tagId_def ccNum_def only_dimension_simps
  have tag_list: "only_dimension Tag list_queries" if "js_lt (Num 0) tagId"
    using that type search positive_truthy [OF that] by (simp add: list_defs)
  have tag_book: "only_dimension Tag book_queries"
    if "js_lt (Num 0) tagId" "options ''bookId'' \<noteq> Prim Undefined" "truthy (options ''num'')"
    using that type' search positive_truthy [OF that(1)] by (simp add: book_defs)
  have cc_list: "only_dimension Custom_column list_queries"
    if "\<not> js_lt (Num 0) tagId" "js_lt (Num 0) ccNum"
    using that type search positive_truthy [OF that(2)] by (simp add: list_defs)
  have cc_book: "only_dimension Custom_column book_queries"
    if "\<not> js_lt (Num 0) tagId" "js_lt (Num 0) ccNum"
      "options ''bookId'' \<noteq> Prim Undefined" "truthy (options ''num'')"
    using that type' search positive_truthy [OF that(2)] by (simp add: book_defs)
  have plain_list: "only_dimension Plain_search list_queries"
    if "tagId = Num 0" "ccNum = Num 0"
    using that type search by (simp add: list_defs)
  have plain_book: "only_dimension Plain_search book_queries"
    if "tagId = Num 0" "ccNum = Num 0"
      "options ''bookId'' \<noteq> Prim Undefined" "truthy (options ''num'')"
    using that type' search by (simp add: book_defs)
  have none_list: "list_queries = []"
    if "\<not> js_lt (Num 0) tagId" "\<not> js_lt (Num 0) ccNum" "\<not> (tagId = Num 0 \<and> ccNum = Num 0)"
    using that type search by (auto simp: list_defs)
  have none_book: "book_queries = []"
    if "\<not> js_lt (Num 0) tagId" "\<not> js_lt (Num 0) ccNum" "\<not> (tagId = Num 0 \<and> ccNum = Num 0)"
    using that type' search by (auto simp: book_defs)
  from tag_list tag_book cc_list cc_book plain_list plain_book none_list none_book
  show ?thesis by blast
qed

lemma sample_options_fields:
  "sample_options ''type'' = Prim Undefined"
  "sample_options ''searchString'' = Str ''Harry Potter''"
  "sample_options ''sortString'' = Prim Undefined"
  "sample_options ''tagId'' = Str ''5''"
  "sample_options ''ccNum'' = Str ''3''"
  "sample_options ''bookId'' = Str ''7''"
  "sample_options ''num'' = Str ''2''"
  by (simp_all add: sample_options_def no_options_def)

text \<open>The sample request carries \<^verbatim>\<open>tagId = "5"\<close> and \<^verbatim>\<open>ccNum = "3"\<close>: the tag dimension
  wins, in the list handler and in the book handler.\<close>

theorem filter_precedence_witness:
  "search_option (sample_options ''searchString'') = Inr (Some [''harry'', ''potter'']) \<and>
   js_lt (Num 0) (int_option (sample_options ''tagId'')) \<and>
   js_lt (Num 0) (int_option (sample_options ''ccNum'')) \<and>
   only_dimension Tag (fst (listAction sample_store 30 (Prim Undefined) sample_options)) \<and>
   only_dimension Tag (fst (bookAction_neighbours sample_store sample_options))"
proof -
  have type:
    "(if truthy (sample_options ''type'') then sample_options ''type'' else Prim Undefined)
       \<noteq> Str ''serie''"
    "(if truthy (sample_options ''type'') then sample_options ''type'' else Prim Undefined)
       \<noteq> Str ''author''"
    by (simp_all add: sample_options_fields)
  have search: "search_option (sample_options ''searchString'') = Inr (Some [''harry'', ''potter''])"
    unfolding sample_options_fields by code_simp
  have tag: "js_lt (Num 0) (int_option (sample_options ''tagId''))"
    unfolding sample_options_fields by code_simp
  have cc: "js_lt (Num 0) (int_option (sample_options ''ccNum''))"
    unfolding sample_options_fields by code_simp
  have book: "sample_options ''bookId'' \<noteq> Prim Undefined \<and> truthy (sample_options ''num'')"
    by (simp add: sample_options_fields)
  from filter_precedence [OF type search, of sample_store 30] tag book
  have "only_dimension Tag (fst (listAction sample_store 30 (Prim Undefined) sample_options)) \<and>
        only_dimension Tag (fst (bookAction_neighbours sample_store sample_options))"
    by blast
  with search tag cc show ?thesis by blast
qed

text \<open>
  Claim C1 as first stated lets the plain search apply whenever neither \<^verbatim>\<open>tagId\<close> nor
  \<^verbatim>\<open>ccNum\<close> is positive. For \<^verbatim>\<open>tagId = -1\<close> the precedence of the specification selects
  the plain search, but the list handler issues no query at all and answers that no
  books were found.
\<close>

theorem negative_tag_no_query:
  "spec_dimension (int_option (negative_tag_options ''tagId''))
     (int_option (negative_tag_options ''ccNum'')) = Plain_search \<and>
   listAction sample_store 30 (Prim Undefined) negative_tag_options =
     ([], Send_message no_books_message)"
  by (simp add: spec_dimension_def negative_tag_options_def no_options_def int_option_def
       listAction_def listAction_switch_def sort_option_def Let_def)

section \<open>The neighbours of a book\<close>



lemma int_option_5: "int_option (Str ''5'') = Num 5"
  by code_simp




text \<open>For the first item of the same listing only the next book is asked for.\<close>

lemma first_item_has_no_previous:
  "bookAction_neighbours sample_store (sample_options(''num'' := Prim (Number (Num 1)))) =
     ([FindBooksWithTags (Some [''harry'', ''potter'']) (Str []) (Num 5) 1 (Num 1)],
      Inr \<lparr>prevBook = None, nextBook = Some 2\<rparr>)"
proof -
  have search: "searchStringToArray ''Harry Potter'' = [''harry'', ''potter'']"
    by code_simp
  have a: "findBooksWithTags sample_store sa so t 1 (Num 1) = [2]" for sa so t
    by (simp add: sample_store_def rows_def upt_rec)
  show ?thesis
    by (simp add: bookAction_neighbours_def bookAction_switch_def prev_next_def Let_def
          sample_options_def no_options_def sort_option_def int_option_5 search a
          js_sub_def double_of_int_exact)
qed

text \<open>For the last item, the 95th of the sample catalog, the store has no row at offset
  95 and \<^verbatim>\<open>nextBook\<close> is \<^verbatim>\<open>undefined\<close>.\<close>

lemma last_item_has_no_next:
  "bookAction_neighbours sample_store (sample_options(''num'' := Str ''95'')) =
     ([FindBooksWithTags (Some [''harry'', ''potter'']) (Str []) (Num 5) 1 (Num 93),
       FindBooksWithTags (Some [''harry'', ''potter'']) (Str []) (Num 5) 1 (Num 95)],
      Inr \<lparr>prevBook = Some 94, nextBook = None\<rparr>)"
proof -
  have search: "searchStringToArray ''Harry Potter'' = [''harry'', ''potter'']"
    by code_simp
  have num: "parseInt_string ''95'' = Num 95" by code_simp
  have a: "findBooksWithTags sample_store sa so t 1 (Num 93) = [94]"
          "findBooksWithTags sample_store sa so t 1 (Num 95) = []" for sa so t
    by (simp_all add: sample_store_def rows_def)
  show ?thesis
    by (simp add: bookAction_neighbours_def bookAction_switch_def prev_next_def Let_def
          sample_options_def no_options_def sort_option_def int_option_5 search a num
          js_sub_def double_of_int_exact)
qed

text \<open>From \<open>10\<^sup>2\<^sup>1\<close> on the text of a number is in exponent notation and \<^verbatim>\<open>parseInt\<close> reads
  its first digit only: for the number \<open>10\<^sup>2\<^sup>1\<close> the handler takes the book for the first
  item.\<close>

lemma exponent_notation_position:
  "bookAction_neighbours sample_store
     (sample_options(''num'' := Prim (Number (Num (10 ^ 21))))) =
     ([FindBooksWithTags (Some [''harry'', ''potter'']) (Str []) (Num 5) 1 (Num 1)],
      Inr \<lparr>prevBook = None, nextBook = Some 2\<rparr>)"
proof -
  have search: "searchStringToArray ''Harry Potter'' = [''harry'', ''potter'']"
    by code_simp
  have a: "findBooksWithTags sample_store sa so t 1 (Num 1) = [2]" for sa so t
    by (simp add: sample_store_def rows_def upt_rec)
  have digit: "exponent_digit 1000000000000000000000 = 1" by code_simp
  show ?thesis
    by (simp add: bookAction_neighbours_def bookAction_switch_def prev_next_def Let_def
          sample_options_def no_options_def sort_option_def int_option_5 search a digit
          js_sub_def double_of_int_exact)
qed


section \<open>Properties of the cover handlers\<close>

lemma length_string_of_nat_pos: "0 < length (string_of_nat n)"
  by (subst string_of_nat.simps) simp

lemma length_string_of_nat_le:
  "0 < k \<Longrightarrow> n < 10 ^ k \<Longrightarrow> length (string_of_nat n) \<le> k"
proof (induction k arbitrary: n)
  case 0
  then show ?case by simp
next
  case (Suc k)
  show ?case
  proof (cases "n < 10")
    case True
    then show ?thesis by (subst string_of_nat.simps) simp
  next
    case False
    with Suc.prems have k: "0 < k" by (cases k) auto
    from Suc.prems have "n div 10 < 10 ^ k" by (simp add: less_mult_imp_div_less mult.commute)
    with k have "length (string_of_nat (n div 10)) \<le> k" by (rule Suc.IH)
    with False show ?thesis by (subst string_of_nat.simps) simp
  qed
qed

lemma shard_is_spec_shard:
  assumes "n < 100000"
  shows "substring0 2 (slice_last 5 (''0000'' @ string_of_nat n)) = spec_shard n"
proof -
  let ?d = "string_of_nat n"
  have "n < 10 ^ 5" using assms by simp
  then have le: "length ?d \<le> 5" by (intro length_string_of_nat_le) simp_all
  have pos: "0 < length ?d" by (rule length_string_of_nat_pos)
  from le pos consider "length ?d = 1" | "length ?d = 2" | "length ?d = 3"
    | "length ?d = 4" | "length ?d = 5" by linarith
  then have "slice_last 5 (''0000'' @ ?d) = replicate (5 - length ?d) (CHR ''0'') @ ?d"
    by cases (simp_all add: slice_last_def numeral_eq_Suc)
  then show ?thesis by (simp add: substring0_def spec_shard_def)
qed

lemma string_of_nat_42: "string_of_nat 42 = ''42''"
  by (simp add: string_of_nat.simps digit_char_def)

lemma string_of_nat_123456: "string_of_nat 123456 = ''123456''"
  by (simp add: string_of_nat.simps digit_char_def)

text \<open>
  Claim C6, as amended. The cache path of a cover is a function of the id of the item
  and of the profile: the file is named by the id followed by \<^verbatim>\<open>.jpg\<close>, and the directory
  is the cache root, a slash, the digit 1 for the list profile or 0 for the detail
  profile, and the shard, which is the first two of the last five characters of
  \<^verbatim>\<open>"0000"\<close> followed by the id. For every id below 100000 the shard is the two most
  significant digits of the id padded with zeros to five digits. The list cover of the
  item 42 is the file \<^verbatim>\<open>42.jpg\<close> in the directory \<^verbatim>\<open>100\<close> of the cache.
\<close>

theorem cover_cache_path:
  assumes "bookId fileData < 100000"
  shows "coverList_target env fileData =
           (BOOKDIR env @ ''/'' @ path fileData @ ''/cover.jpg'',
            IMGCACHE env @ ''/1'' @ spec_shard (bookId fileData),
            string_of_nat (bookId fileData) @ ''.jpg'',
            Height 250) \<and>
         coverBook_target env fileData =
           (BOOKDIR env @ ''/'' @ path fileData @ ''/cover.jpg'',
            IMGCACHE env @ ''/0'' @ spec_shard (bookId fileData),
            string_of_nat (bookId fileData) @ ''.jpg'',
            Width 320) \<and>
         coverList_target env \<lparr>path = p, bookId = 42\<rparr> =
           (BOOKDIR env @ ''/'' @ p @ ''/cover.jpg'', IMGCACHE env @ ''/100'', ''42.jpg'',
            Height 250)"
proof -
  note shard = shard_is_spec_shard [OF assms]
  have list: "coverList_target env fileData =
           (BOOKDIR env @ ''/'' @ path fileData @ ''/cover.jpg'',
            IMGCACHE env @ ''/1'' @ spec_shard (bookId fileData),
            string_of_nat (bookId fileData) @ ''.jpg'',
            Height 250)"
    unfolding coverList_target_def shard ..
  have book: "coverBook_target env fileData =
           (BOOKDIR env @ ''/'' @ path fileData @ ''/cover.jpg'',
            IMGCACHE env @ ''/0'' @ spec_shard (bookId fileData),
            string_of_nat (bookId fileData) @ ''.jpg'',
            Width 320)"
    unfolding coverBook_target_def shard ..
  have "coverList_target env \<lparr>path = p, bookId = 42\<rparr> =
           (BOOKDIR env @ ''/'' @ p @ ''/cover.jpg'', IMGCACHE env @ ''/100'', ''42.jpg'',
            Height 250)"
    by (simp add: coverList_target_def string_of_nat_42 substring0_def slice_last_def)
  with list book show ?thesis by blast
qed

text \<open>The item 42: the directories end in \<^verbatim>\<open>100\<close> and \<^verbatim>\<open>000\<close>, and the file is
  \<^verbatim>\<open>42.jpg\<close>.\<close>

theorem cover_cache_path_witness:
  "(42::nat) < 100000 \<and> spec_shard 42 = ''00'' \<and>
   coverList_target sample_env \<lparr>path = ''Author/Title (42)'', bookId = 42\<rparr> =
     (''/books/Author/Title (42)/cover.jpg'', ''./Cache/100'', ''42.jpg'', Height 250) \<and>
   coverBook_target sample_env \<lparr>path = ''Author/Title (42)'', bookId = 42\<rparr> =
     (''/books/Author/Title (42)/cover.jpg'', ''./Cache/000'', ''42.jpg'', Width 320)"
proof -
  have small: "bookId \<lparr>path = ''Author/Title (42)'', bookId = 42\<rparr> < 100000" by simp
  have shard: "spec_shard 42 = ''00''"
    unfolding spec_shard_def string_of_nat_42 by (simp add: numeral_eq_Suc)
  from cover_cache_path [OF small, where env = sample_env and p = "''Author/Title (42)''"]
  show ?thesis
    by (simp add: string_of_nat_42 shard sample_env_def)
qed

text \<open>
  Claim C6 as first stated fails for an id of six digits: for the item 123456 the list
  profile uses the directory \<^verbatim>\<open>123\<close> (of the last five characters \<^verbatim>\<open>23456\<close>), where the
  two most significant digits of the id would give \<^verbatim>\<open>112\<close>.
\<close>

theorem cover_cache_path_six_digits:
  "fst (snd (coverList_target sample_env \<lparr>path = ''Author/Title (123456)'', bookId = 123456\<rparr>))
     = ''./Cache/123'' \<and>
   IMGCACHE sample_env @ ''/1'' @ spec_shard 123456 = ''./Cache/112''"
proof -
  have "substring0 2 (slice_last 5 (''0000'' @ string_of_nat 123456)) = ''23''"
    unfolding string_of_nat_123456 by (simp add: substring0_def slice_last_def)
  moreover have "spec_shard 123456 = ''12''"
    unfolding spec_shard_def string_of_nat_123456 by simp
  ultimately show ?thesis by (simp add: coverList_target_def sample_env_def)
qed

lemma parseInt_string_42: "parseInt_string ''42'' = Num 42"
  by code_simp

lemma parseInt_string_43: "parseInt_string ''43'' = Num 43"
  by code_simp

lemma cover_targets_42:
  "coverList_target sample_env \<lparr>path = ''Author/Title (42)'', bookId = 42\<rparr> =
     (''/books/Author/Title (42)/cover.jpg'', ''./Cache/100'', ''42.jpg'', Height 250)"
  "coverBook_target sample_env \<lparr>path = ''Author/Title (42)'', bookId = 42\<rparr> =
     (''/books/Author/Title (42)/cover.jpg'', ''./Cache/000'', ''42.jpg'', Width 320)"
  by (simp_all add: coverList_target_def coverBook_target_def sample_env_def string_of_nat_42
        substring0_def slice_last_def)

text \<open>The two paths of \<^verbatim>\<open>sendResizedCover\<close>: the target is in the cache, or it is not and
  the source exists.\<close>

lemma sendResizedCover_cached:
  assumes "files w (targetDir @ ''/'' @ targetFile) = Some cached"
  shows "sendResizedCover env source targetDir targetFile resizeData w =
           (Send_file (targetDir @ ''/'' @ targetFile) cached, w)"
  using assms by (simp add: sendResizedCover_def sendFile_def)

lemma sendResizedCover_first:
  assumes "files w (targetDir @ ''/'' @ targetFile) = None"
    and "files w source = Some img"
  shows "sendResizedCover env source targetDir targetFile resizeData w =
           (Send_file (targetDir @ ''/'' @ targetFile) (sharp_resize env resizeData img),
            w\<lparr>resizes := resizes w @ [(source, resizeData, targetDir @ ''/'' @ targetFile)],
              files := (files w)(targetDir @ ''/'' @ targetFile \<mapsto> sharp_resize env resizeData img)\<rparr>)"
  using assms by (simp add: sendResizedCover_def sendFile_def Let_def)

text \<open>
  Claim C5. Take a cover request for which the store has cover data, under either
  profile. If the target file is already in the cache, it is sent as it is: no file
  changes and \<^verbatim>\<open>sharp\<close> is not called. If it is absent and the source cover exists, the
  source is resized with the geometry of the profile (height 250 for the list, width 320
  for the detail page) into the target path, which is the only file that changes, and
  the new file is sent. In both cases a second request for the same cover gives the same
  response and leaves the file system and the list of calls to \<^verbatim>\<open>sharp\<close> as they are.
\<close>

theorem cover_cache:
  fixes env :: "'i env" and st :: "'b store" and w :: "'i world" and fileData :: fileData
    and params_id :: string
  defines "source \<equiv> BOOKDIR env @ ''/'' @ path fileData @ ''/cover.jpg''"
    and "list_target \<equiv> fst (snd (coverList_target env fileData)) @ ''/'' @
                          fst (snd (snd (coverList_target env fileData)))"
    and "book_target \<equiv> fst (snd (coverBook_target env fileData)) @ ''/'' @
                          fst (snd (snd (coverBook_target env fileData)))"
    and "list1 \<equiv> coverListAction env st params_id w"
    and "book1 \<equiv> coverBookAction env st params_id w"
  assumes data: "getCoverData st (parseInt_string params_id) = Some fileData"
  shows
    "(\<forall>cached. files w list_target = Some cached \<longrightarrow>
        fst list1 = Send_file list_target cached \<and>
        files (snd list1) = files w \<and> resizes (snd list1) = resizes w \<and>
        coverListAction env st params_id (snd list1) = list1) \<and>
     (\<forall>img. files w list_target = None \<and> files w source = Some img \<longrightarrow>
        fst list1 = Send_file list_target (sharp_resize env (Height 250) img) \<and>
        files (snd list1) = (files w)(list_target \<mapsto> sharp_resize env (Height 250) img) \<and>
        resizes (snd list1) = resizes w @ [(source, Height 250, list_target)] \<and>
        coverListAction env st params_id (snd list1) = list1) \<and>
     (\<forall>cached. files w book_target = Some cached \<longrightarrow>
        fst book1 = Send_file book_target cached \<and>
        files (snd book1) = files w \<and> resizes (snd book1) = resizes w \<and>
        coverBookAction env st params_id (snd book1) = book1) \<and>
     (\<forall>img. files w book_target = None \<and> files w source = Some img \<longrightarrow>
        fst book1 = Send_file book_target (sharp_resize env (Width 320) img) \<and>
        files (snd book1) = (files w)(book_target \<mapsto> sharp_resize env (Width 320) img) \<and>
        resizes (snd book1) = resizes w @ [(source, Width 320, book_target)] \<and>
        coverBookAction env st params_id (snd book1) = book1)"
proof -
  note list_defs = list1_def list_target_def source_def coverListAction_def coverList_target_def
  note book_defs = book1_def book_target_def source_def coverBookAction_def coverBook_target_def
  have list_hit: "fst list1 = Send_file list_target cached \<and>
        files (snd list1) = files w \<and> resizes (snd list1) = resizes w \<and>
        coverListAction env st params_id (snd list1) = list1"
    if "files w list_target = Some cached" for cached
    using that data by (simp add: list_defs sendResizedCover_cached)
  have list_miss: "fst list1 = Send_file list_target (sharp_resize env (Height 250) img) \<and>
        files (snd list1) = (files w)(list_target \<mapsto> sharp_resize env (Height 250) img) \<and>
        resizes (snd list1) = resizes w @ [(source, Height 250, list_target)] \<and>
        coverListAction env st params_id (snd list1) = list1"
    if "files w list_target = None" "files w source = Some img" for img
    using that data
    by (simp add: list_defs sendResizedCover_first sendResizedCover_cached)
  have book_hit: "fst book1 = Send_file book_target cached \<and>
        files (snd book1) = files w \<and> resizes (snd book1) = resizes w \<and>
        coverBookAction env st params_id (snd book1) = book1"
    if "files w book_target = Some cached" for cached
    using that data by (simp add: book_defs sendResizedCover_cached)
  have book_miss: "fst book1 = Send_file book_target (sharp_resize env (Width 320) img) \<and>
        files (snd book1) = (files w)(book_target \<mapsto> sharp_resize env (Width 320) img) \<and>
        resizes (snd book1) = resizes w @ [(source, Width 320, book_target)] \<and>
        coverBookAction env st params_id (snd book1) = book1"
    if "files w book_target = None" "files w source = Some img" for img
    using that data
    by (simp add: book_defs sendResizedCover_first sendResizedCover_cached)
  from list_hit list_miss book_hit book_miss show ?thesis by blast
qed

text \<open>The first request for the list cover of the item 42 in the sample file system
  calls \<^verbatim>\<open>sharp\<close> once; the second one finds the file.\<close>

theorem cover_cache_witness:
  "getCoverData cover_store (parseInt_string ''42'') =
     Some \<lparr>path = ''Author/Title (42)'', bookId = 42\<rparr> \<and>
   files sample_world ''./Cache/100/42.jpg'' = None \<and>
   files sample_world ''/books/Author/Title (42)/cover.jpg'' = Some [] \<and>
   fst (coverListAction sample_env cover_store ''42'' sample_world) =
     Send_file ''./Cache/100/42.jpg'' [Height 250] \<and>
   resizes (snd (coverListAction sample_env cover_store ''42'' sample_world)) =
     [(''/books/Author/Title (42)/cover.jpg'', Height 250, ''./Cache/100/42.jpg'')] \<and>
   coverListAction sample_env cover_store ''42''
       (snd (coverListAction sample_env cover_store ''42'' sample_world)) =
     coverListAction sample_env cover_store ''42'' sample_world"
proof -
  let ?fd = "\<lparr>path = ''Author/Title (42)'', bookId = 42\<rparr>"
  have data: "getCoverData cover_store (parseInt_string ''42'') = Some ?fd"
    by (simp add: parseInt_string_42 cover_store_def)
  have absent: "files sample_world ''./Cache/100/42.jpg'' = None"
    by (simp add: sample_world_def)
  have present: "files sample_world ''/books/Author/Title (42)/cover.jpg'' = Some []"
    by (simp add: sample_world_def)
  have resize: "sharp_resize sample_env g img = img @ [g]" for g img
    by (simp add: sample_env_def)
  have bookdir: "BOOKDIR sample_env = ''/books''"
    by (simp add: sample_env_def)
  have fresh: "resizes sample_world = []"
    by (simp add: sample_world_def)
  from cover_cache [OF data, where env = sample_env and w = sample_world, THEN conjunct2, THEN conjunct1,
      rule_format, of "[]"] absent present
  have "fst (coverListAction sample_env cover_store ''42'' sample_world) =
     Send_file ''./Cache/100/42.jpg'' [Height 250] \<and>
   resizes (snd (coverListAction sample_env cover_store ''42'' sample_world)) =
     [(''/books/Author/Title (42)/cover.jpg'', Height 250, ''./Cache/100/42.jpg'')] \<and>
   coverListAction sample_env cover_store ''42''
       (snd (coverListAction sample_env cover_store ''42'' sample_world)) =
     coverListAction sample_env cover_store ''42'' sample_world"
    by (simp add: cover_targets_42 bookdir resize fresh)
  with data absent present show ?thesis by blast
qed

text \<open>When neither the target nor the source exists, \<^verbatim>\<open>sharp\<close> is called, no file is
  written, and no response is sent.\<close>

lemma cover_source_missing:
  fixes env :: "'i env" and st :: "'b store" and w :: "'i world"
  assumes "getCoverData st (parseInt_string params_id) = Some fileData"
    and "coverList_target env fileData = (source, targetDir, targetFile, geometry)"
    and "files w (targetDir @ ''/'' @ targetFile) = None"
    and "files w source = None"
  shows "coverListAction env st params_id w =
           (Unanswered,
            w\<lparr>dirs := insert targetDir (dirs w),
              resizes := resizes w @ [(source, geometry, targetDir @ ''/'' @ targetFile)]\<rparr>)"
  using assms
  by (simp add: coverListAction_def sendResizedCover_def sendFile_def Let_def)

text \<open>
  Claim C10. When the store has no cover data for the requested id, the list handler
  sends no response and changes nothing, and the detail handler raises on
  \<^verbatim>\<open>fileData.path\<close> and answers with status 500 through \<^verbatim>\<open>errorHandler\<close>.
\<close>

theorem cover_without_data:
  assumes "getCoverData st (parseInt_string params_id) = None"
  shows "coverListAction env st params_id w = (Unanswered, w) \<and>
         coverBookAction env st params_id w =
           (Status_500 ''coverBookAction'' (TypeError_property_of_undefined ''path''), w)"
  using assms by (simp add: coverListAction_def coverBookAction_def errorHandler_def)

text \<open>The sample store has no cover data for the id 43.\<close>

theorem cover_without_data_witness:
  "getCoverData cover_store (parseInt_string ''43'') = None \<and>
   coverListAction sample_env cover_store ''43'' sample_world = (Unanswered, sample_world) \<and>
   coverBookAction sample_env cover_store ''43'' sample_world =
     (Status_500 ''coverBookAction'' (TypeError_property_of_undefined ''path''), sample_world)"
proof -
  have none: "getCoverData cover_store (parseInt_string ''43'') = None"
    by (simp add: parseInt_string_43 cover_store_def)
  from cover_without_data [OF none, where env = sample_env and w = sample_world] none
  show ?thesis by blast
qed

end
